theory Spec2Isabelle
  imports Complex_Main "HOL-Library.Char_ord" "HOL-Library.List_Lexorder"
begin

section \<open>Numbers of the host language and of the big-number library\<close>

text \<open>
  The pipeline computes with two kinds of numbers.
  \<^item> \<open>ethers.BigNumber\<close>: unbounded signed integers, modelled as \<^typ>\<open>int\<close>. Addition,
    subtraction, multiplication and comparison are the ones of \<^typ>\<open>int\<close>. Division
    truncates toward zero and throws on a zero divisor; \<open>toNumber\<close> throws unless the
    magnitude is below \<open>2^53\<close>; a host number passed where a BigNumber is expected
    (\<open>amount.mul(n)\<close>) is converted by \<open>BigNumber.from\<close>, which throws on a
    fractional value and on a magnitude of \<open>2^53 - 1\<close> or more.
  \<^item> host numbers (\<open>number\<close>): modelled as exact rationals (\<^typ>\<open>rat\<close>). The
    comparisons the general theorems below rest on are between a quotient \<open>n / 100\<close> or
    \<open>n / 1000\<close> of an integer \<open>n\<close> and one of the constants 0.5, 30, 60 and 100,
    where rounding to the nearest double cannot change the outcome; the concrete
    evaluations use values on which double arithmetic gives the same results. \<open>NaN\<close>
    and the infinities are not modelled.
  Every throw of the source is a value \<open>Inl e\<close> of the result.
\<close>

datatype error = Overflow | Underflow | DivisionByZero | InvalidArgument

definition bindE :: "error + 'a \<Rightarrow> ('a \<Rightarrow> error + 'b) \<Rightarrow> error + 'b" where
  "bindE m f = (case m of Inl e \<Rightarrow> Inl e | Inr x \<Rightarrow> f x)"

definition WeiPerEther :: int where
  "WeiPerEther = 10 ^ 18"

definition MAX_SAFE :: int where
  "MAX_SAFE = 2 ^ 53 - 1"

definition bn_div :: "int \<Rightarrow> int \<Rightarrow> error + int" where
  \<comment> \<open>\<open>a.div(b)\<close>\<close>
  "bn_div a b =
     (if b = 0 then Inl DivisionByZero else Inr (sgn a * sgn b * (\<bar>a\<bar> div \<bar>b\<bar>)))"

definition toNumber :: "int \<Rightarrow> error + rat" where
  \<comment> \<open>\<open>a.toNumber()\<close>\<close>
  "toNumber a = (if \<bar>a\<bar> < 2 ^ 53 then Inr (of_int a) else Inl Overflow)"

definition bn_from_number :: "rat \<Rightarrow> error + int" where
  \<comment> \<open>\<open>BigNumber.from(n)\<close> for a host number \<open>n\<close>\<close>
  "bn_from_number x =
     (if of_int \<lfloor>x\<rfloor> \<noteq> x then Inl Underflow
      else if x \<ge> of_int MAX_SAFE \<or> x \<le> - of_int MAX_SAFE then Inl Overflow
      else Inr \<lfloor>x\<rfloor>)"

definition bn_mul_number :: "int \<Rightarrow> rat \<Rightarrow> error + int" where
  \<comment> \<open>\<open>a.mul(n)\<close> for a host number \<open>n\<close>\<close>
  "bn_mul_number a x = bindE (bn_from_number x) (\<lambda>k. Inr (a * k))"

definition Math_round :: "rat \<Rightarrow> rat" where
  "Math_round x = of_int \<lfloor>x + 1 / 2\<rfloor>"

section \<open>Data model\<close>

text \<open>
  \<open>ArbitrageOpportunity\<close> and \<open>ProfitAnalysis\<close> of \<^verbatim>\<open>arbitrage.types.ts\<close>. The field
  \<open>id\<close> is named \<open>opp_id\<close>; \<open>timestamp\<close> is in milliseconds; the optional
  \<open>estimatedProfit\<close> is an option.
\<close>

record ArbitrageOpportunity =
  opp_id :: string
  tokenIn :: string
  tokenOut :: string
  buyDex :: string
  sellDex :: string
  buyPrice :: int
  sellPrice :: int
  buyPoolAddress :: string
  sellPoolAddress :: string
  availableLiquidity :: int
  timestamp :: int
  blockNumber :: int
  estimatedProfit :: "int option"

record PriceImpact =
  buy :: rat
  sell :: rat

record ProfitAnalysis =
  opportunity :: ArbitrageOpportunity
  grossProfit :: int
  flashLoanFee :: int
  gasCost :: int
  dexFees :: int
  netProfit :: int
  profitPercentage :: rat
  recommendedAmount :: int
  isExecutable :: bool
  priceImpact :: PriceImpact

text \<open>
  The parts of \<open>NetworkConfig\<close> that the pipeline reads. The two settings kept as decimal
  strings, \<open>maxTradeSize\<close> and \<open>maxGasPrice\<close>, are read only through
  \<open>parseEther\<close> and \<open>parseUnits(_, 'gwei')\<close>; the model holds what that parse gives:
  the value in wei, or the error it throws on a malformed string.
\<close>

record AaveProvider =
  pool :: string
  aave_feePercentage :: rat

record DexConfig =
  name :: string
  feePercentage :: rat

record ExecutionConfig =
  minProfitUSD :: rat
  minProfitPercentage :: rat
  maxGasPrice :: "error + int"
  maxSlippage :: rat
  maxTradeSize :: "error + int"

record NetworkConfig =
  aave :: "AaveProvider option"
  dexes :: "DexConfig option list"
  execution :: ExecutionConfig

section \<open>ProfitCalculator\<close>

record ProfitCalculator =
  config :: NetworkConfig
  ethPriceUSD :: rat

definition ProfitCalculator_new :: "NetworkConfig \<Rightarrow> ProfitCalculator" where
  "ProfitCalculator_new cfg = \<lparr>config = cfg, ethPriceUSD = 2000\<rparr>"

definition updateEthPrice :: "ProfitCalculator \<Rightarrow> rat \<Rightarrow> ProfitCalculator" where
  "updateEthPrice pc priceUSD = pc\<lparr>ethPriceUSD := priceUSD\<rparr>"

definition calculateOptimalAmount :: "ProfitCalculator \<Rightarrow> int \<Rightarrow> int \<Rightarrow> int \<Rightarrow> error + int" where
  "calculateOptimalAmount pc buyPrice' sellPrice' availableLiquidity' =
     bindE (maxTradeSize (execution (config pc))) (\<lambda>maxTradeSize'.
     bindE (bn_div availableLiquidity' 10) (\<lambda>tenPercentLiquidity.
       let recommendedAmount' =
             (if tenPercentLiquidity < maxTradeSize' then tenPercentLiquidity else maxTradeSize');
           minAmount = 10 ^ 17
       in Inr (if recommendedAmount' < minAmount then minAmount else recommendedAmount')))"

definition calculateGrossProfit :: "int \<Rightarrow> int \<Rightarrow> int \<Rightarrow> error + int" where
  "calculateGrossProfit amount buyPrice' sellPrice' =
     (let priceDiff = sellPrice' - buyPrice' in bn_div (priceDiff * amount) WeiPerEther)"

definition calculateFlashLoanFee :: "ProfitCalculator \<Rightarrow> int \<Rightarrow> error + int" where
  "calculateFlashLoanFee pc amount =
     (let aaveFee = (case aave (config pc) of
                       None \<Rightarrow> 9 / 100
                     | Some a \<Rightarrow> if aave_feePercentage a = 0 then 9 / 100 else aave_feePercentage a);
          feeBasisPoints = Math_round (aaveFee * 100)
      in bindE (bn_mul_number amount feeBasisPoints) (\<lambda>p. bn_div p 10000))"

definition getDexFee :: "ProfitCalculator \<Rightarrow> string \<Rightarrow> rat" where
  "getDexFee pc dexName =
     (case find (\<lambda>d. case d of None \<Rightarrow> False | Some c \<Rightarrow> name c = dexName) (dexes (config pc)) of
        Some (Some c) \<Rightarrow> if feePercentage c = 0 then 30 else feePercentage c
      | _ \<Rightarrow> 30)"

definition calculateDexFees :: "ProfitCalculator \<Rightarrow> int \<Rightarrow> string \<Rightarrow> string \<Rightarrow> error + int" where
  "calculateDexFees pc amount buyDex' sellDex' =
     (let buyFee = getDexFee pc buyDex';
          sellFee = getDexFee pc sellDex';
          totalFeeBasisPoints = buyFee + sellFee
      in bindE (bn_mul_number amount totalFeeBasisPoints) (\<lambda>p. bn_div p 10000))"

definition estimateGasCost :: "ProfitCalculator \<Rightarrow> error + int" where
  "estimateGasCost pc =
     (let estimatedGas = 400000
      in bindE (maxGasPrice (execution (config pc))) (\<lambda>maxGasPrice'.
           Inr (estimatedGas * maxGasPrice')))"

definition calculateProfitPercentage :: "int \<Rightarrow> int \<Rightarrow> error + rat" where
  "calculateProfitPercentage netProfit' amount =
     (if amount = 0 then Inr 0
      else bindE (bn_div (netProfit' * 10000) amount) (\<lambda>q.
           bindE (toNumber q) (\<lambda>n. Inr (n / 100))))"

definition calculatePriceImpactPercent :: "int \<Rightarrow> int \<Rightarrow> error + rat" where
  "calculatePriceImpactPercent amount price' =
     (let assumedLiquidity = amount * 100
      in bindE (bn_div (amount * 10000) assumedLiquidity) (\<lambda>q.
         bindE (toNumber q) (\<lambda>n.
           let impact = n / 100 in Inr (min impact 100))))"

definition convertToUSD :: "ProfitCalculator \<Rightarrow> int \<Rightarrow> rat" where
  "convertToUSD pc ethAmount =
     (let ethValue = of_int ethAmount / 10 ^ 18 in ethValue * ethPriceUSD pc)"

definition isOpportunityExecutable :: "ProfitCalculator \<Rightarrow> int \<Rightarrow> rat \<Rightarrow> rat \<Rightarrow> rat \<Rightarrow> bool" where
  "isOpportunityExecutable pc netProfit' profitPercentage' buyPriceImpact sellPriceImpact =
     (if netProfit' \<le> 0 then False
      else if convertToUSD pc netProfit' < minProfitUSD (execution (config pc)) then False
      else if profitPercentage' < minProfitPercentage (execution (config pc)) then False
      else let maxSlippagePercent = maxSlippage (execution (config pc)) / 100
           in if buyPriceImpact > maxSlippagePercent \<or> sellPriceImpact > maxSlippagePercent
              then False else True)"

definition calculateProfit :: "ProfitCalculator \<Rightarrow> ArbitrageOpportunity \<Rightarrow> error + ProfitAnalysis" where
  "calculateProfit pc opp =
     bindE (calculateOptimalAmount pc (buyPrice opp) (sellPrice opp) (availableLiquidity opp))
       (\<lambda>recommendedAmount'.
     bindE (calculateGrossProfit recommendedAmount' (buyPrice opp) (sellPrice opp))
       (\<lambda>grossProfit'.
     bindE (calculateFlashLoanFee pc recommendedAmount') (\<lambda>flashLoanFee'.
     bindE (calculateDexFees pc recommendedAmount' (buyDex opp) (sellDex opp)) (\<lambda>dexFees'.
     bindE (estimateGasCost pc) (\<lambda>gasCost'.
       let netProfit' = grossProfit' - flashLoanFee' - dexFees' - gasCost' in
     bindE (calculateProfitPercentage netProfit' recommendedAmount') (\<lambda>profitPercentage'.
     bindE (calculatePriceImpactPercent recommendedAmount' (buyPrice opp)) (\<lambda>buyPriceImpact.
     bindE (calculatePriceImpactPercent recommendedAmount' (sellPrice opp)) (\<lambda>sellPriceImpact.
       let isExecutable' =
             isOpportunityExecutable pc netProfit' profitPercentage' buyPriceImpact sellPriceImpact
       in Inr \<lparr>opportunity = opp,
               grossProfit = grossProfit',
               flashLoanFee = flashLoanFee',
               gasCost = gasCost',
               dexFees = dexFees',
               netProfit = netProfit',
               profitPercentage = profitPercentage',
               recommendedAmount = recommendedAmount',
               isExecutable = isExecutable',
               priceImpact = \<lparr>buy = buyPriceImpact, sell = sellPriceImpact\<rparr>\<rparr>))))))))"

section \<open>Strings\<close>

text \<open>
  Token addresses and venue names are ASCII; a string is a list of bytes and
  \<open>toLowerCase\<close> maps the capital letters \<open>A\<close> to \<open>Z\<close>. The order on strings is
  the lexicographic order on character codes, the one \<open>Array.prototype.sort\<close> uses by
  default.
\<close>

definition toLowerCase_char :: "char \<Rightarrow> char" where
  "toLowerCase_char c =
     (case map_of (zip ''ABCDEFGHIJKLMNOPQRSTUVWXYZ'' ''abcdefghijklmnopqrstuvwxyz'') c of
        None \<Rightarrow> c
      | Some l \<Rightarrow> l)"

definition toLowerCase :: "string \<Rightarrow> string" where
  "toLowerCase s = map toLowerCase_char s"

fun split_on :: "char \<Rightarrow> string \<Rightarrow> string list" where
  \<comment> \<open>\<open>s.split(c)\<close> for a one-character separator\<close>
  "split_on c [] = [[]]"
| "split_on c (x # xs) =
     (if x = c then [] # split_on c xs
      else (case split_on c xs of [] \<Rightarrow> [[x]] | w # ws \<Rightarrow> (x # w) # ws))"

definition digit :: "nat \<Rightarrow> char" where
  "digit d = ''0123456789'' ! d"

fun digits :: "nat \<Rightarrow> string" where
  "digits n = (if n < 10 then [digit n] else digits (n div 10) @ [digit (n mod 10)])"

definition number_toString :: "int \<Rightarrow> string" where
  \<comment> \<open>an integer-valued host number inside a template literal\<close>
  "number_toString i = (if i < 0 then CHR ''-'' # digits (nat (- i)) else digits (nat i))"

definition AddressZero :: string where
  "AddressZero = ''0x'' @ replicate 40 (CHR ''0'')"

section \<open>PriceAggregator\<close>

text \<open>
  \<open>Price\<close> of \<^verbatim>\<open>dex.types.ts\<close>; its token, block and time fields carry the prefix
  \<open>p_\<close>. A scanner is its \<open>DexConfig\<close>, its \<open>isInitialized\<close> flag and, for the
  scan being modelled, the outcome of its asynchronous \<open>getPrice\<close> call: a quote, or
  the error it throws.
\<close>

record Price =
  p_tokenA :: string
  p_tokenB :: string
  price :: int
  inversePrice :: int
  p_blockNumber :: int
  p_timestamp :: int
  source :: string
  poolAddress :: "string option"

record DexScanner =
  dex_config :: DexConfig
  isInitialized :: bool
  getPrice :: "string \<Rightarrow> string \<Rightarrow> error + Price"

definition isReady :: "DexScanner \<Rightarrow> bool" where
  "isReady scanner = isInitialized scanner"

definition getName :: "DexScanner \<Rightarrow> string" where
  "getName scanner = name (dex_config scanner)"

text \<open>
  A \<open>Map\<close> is an association list in insertion order with distinct keys: \<open>set\<close> on a
  present key replaces the value in place, on a new key appends. A \<open>Set\<close> is a list
  without repetition in insertion order.
\<close>

fun Map_set :: "'k \<Rightarrow> 'v \<Rightarrow> ('k \<times> 'v) list \<Rightarrow> ('k \<times> 'v) list" where
  "Map_set k v [] = [(k, v)]"
| "Map_set k v ((k', v') # m) = (if k' = k then (k, v) # m else (k', v') # Map_set k v m)"

definition Set_add :: "'a \<Rightarrow> 'a list \<Rightarrow> 'a list" where
  "Set_add x xs = (if x \<in> set xs then xs else xs @ [x])"

definition Set_delete :: "'a \<Rightarrow> 'a list \<Rightarrow> 'a list" where
  "Set_delete x xs = removeAll x xs"

record PriceAggregator =
  scanners :: "(string \<times> DexScanner) list"
  monitoredPairs :: "string list"
  isMonitoring :: bool

definition PriceAggregator_new :: "DexScanner list \<Rightarrow> PriceAggregator" where
  "PriceAggregator_new scs =
     \<lparr>scanners = fold (\<lambda>scanner m. Map_set (getName scanner) scanner m) scs [],
      monitoredPairs = [],
      isMonitoring = False\<rparr>"

definition getPairKey :: "string \<Rightarrow> string \<Rightarrow> string" where
  "getPairKey tokenA tokenB =
     (let a = toLowerCase tokenA; b = toLowerCase tokenB;
          sorted = (if b < a then [b, a] else [a, b])
      in sorted ! 0 @ ''-'' @ sorted ! 1)"

definition parsePairKey :: "string \<Rightarrow> string \<times> string option" where
  \<comment> \<open>the first two fields of the split; the second is \<open>undefined\<close> when there is no separator\<close>
  "parsePairKey pairKey =
     (case split_on (CHR ''-'') pairKey of
        a # b # _ \<Rightarrow> (a, Some b)
      | [a] \<Rightarrow> (a, None)
      | [] \<Rightarrow> ([], None))"

definition addPair :: "PriceAggregator \<Rightarrow> string \<Rightarrow> string \<Rightarrow> PriceAggregator" where
  "addPair agg tokenA tokenB =
     (let pairKey = getPairKey tokenA tokenB
      in agg\<lparr>monitoredPairs := Set_add pairKey (monitoredPairs agg)\<rparr>)"

definition removePair :: "PriceAggregator \<Rightarrow> string \<Rightarrow> string \<Rightarrow> PriceAggregator" where
  "removePair agg tokenA tokenB =
     (let pairKey = getPairKey tokenA tokenB
      in agg\<lparr>monitoredPairs := Set_delete pairKey (monitoredPairs agg)\<rparr>)"

definition getMonitoredPairs :: "PriceAggregator \<Rightarrow> (string \<times> string option) list" where
  "getMonitoredPairs agg = map parsePairKey (monitoredPairs agg)"

definition generateOpportunityId :: "int \<Rightarrow> string \<Rightarrow> string \<Rightarrow> string \<Rightarrow> string \<Rightarrow> string" where
  "generateOpportunityId now tokenA tokenB buyDex' sellDex' =
     tokenA @ ''-'' @ tokenB @ ''-'' @ buyDex' @ ''-'' @ sellDex' @ ''-'' @ number_toString now"

definition orAddressZero :: "string option \<Rightarrow> string" where
  \<comment> \<open>\<open>poolAddress || AddressZero\<close>: a missing and an empty string are both falsy\<close>
  "orAddressZero a = (case a of None \<Rightarrow> AddressZero | Some s \<Rightarrow> if s = [] then AddressZero else s)"

text \<open>
  \<open>now\<close> is the reading of \<open>Date.now()\<close>; the two readings taken while one opportunity
  is built (for its id and for its timestamp) are taken to be the same instant.
\<close>

definition createOpportunityIfProfitable ::
  "int \<Rightarrow> string \<Rightarrow> string \<Rightarrow> string \<Rightarrow> string \<Rightarrow> Price \<Rightarrow> Price
     \<Rightarrow> error + ArbitrageOpportunity option" where
  "createOpportunityIfProfitable now tokenA tokenB buyDex' sellDex' buyPrice' sellPrice' =
     (if price sellPrice' \<le> price buyPrice' then Inr None
      else let priceDiff = price sellPrice' - price buyPrice' in
        bindE (bn_div (priceDiff * 10000) (price buyPrice')) (\<lambda>q.
        bindE (toNumber q) (\<lambda>n.
          let diffPercentage = n / 100;
              minDiffPercentage = 1 / 2
          in if diffPercentage < minDiffPercentage then Inr None
             else let availableLiquidity' = 10 * 10 ^ 18
               in Inr (Some
                    \<lparr>opp_id = generateOpportunityId now tokenA tokenB buyDex' sellDex',
                     tokenIn = tokenA,
                     tokenOut = tokenB,
                     buyDex = buyDex',
                     sellDex = sellDex',
                     buyPrice = price buyPrice',
                     sellPrice = price sellPrice',
                     buyPoolAddress = orAddressZero (poolAddress buyPrice'),
                     sellPoolAddress = orAddressZero (poolAddress sellPrice'),
                     availableLiquidity = availableLiquidity',
                     timestamp = now,
                     blockNumber = max (p_blockNumber buyPrice') (p_blockNumber sellPrice'),
                     estimatedProfit = Some priceDiff\<rparr>))))"

text \<open>
  The scan of one pair. \<open>fetchPrices\<close> is the loop over the scanner registry that fills
  the map \<open>prices\<close>; \<open>compareWith\<close> is the inner loop (\<open>j\<close> from \<open>i + 1\<close>) and
  \<open>comparePrices\<close> the outer loop (\<open>i\<close>) over the entries of that map. A throw inside
  \<open>createOpportunityIfProfitable\<close> is not caught here and ends the scan of the pair.
\<close>

definition fetchPrices :: "(string \<times> DexScanner) list \<Rightarrow> string \<Rightarrow> string \<Rightarrow> (string \<times> Price) list" where
  "fetchPrices scs tokenA tokenB =
     fold (\<lambda>(dexName, scanner) prices.
             if \<not> isReady scanner then prices
             else (case getPrice scanner tokenA tokenB of
                     Inl e \<Rightarrow> prices
                   | Inr p \<Rightarrow> Map_set dexName p prices))
          scs []"

definition pushIf :: "'a option \<Rightarrow> 'a list" where
  \<comment> \<open>\<open>if (o) opportunities.push(o)\<close>\<close>
  "pushIf x = (case x of None \<Rightarrow> [] | Some y \<Rightarrow> [y])"

fun compareWith ::
  "int \<Rightarrow> string \<Rightarrow> string \<Rightarrow> string \<times> Price \<Rightarrow> (string \<times> Price) list
     \<Rightarrow> error + ArbitrageOpportunity list" where
  "compareWith now tokenA tokenB e [] = Inr []"
| "compareWith now tokenA tokenB (dex1, price1) ((dex2, price2) # rest) =
     bindE (createOpportunityIfProfitable now tokenA tokenB dex1 dex2 price1 price2) (\<lambda>opportunity1.
     bindE (createOpportunityIfProfitable now tokenA tokenB dex2 dex1 price2 price1) (\<lambda>opportunity2.
     bindE (compareWith now tokenA tokenB (dex1, price1) rest) (\<lambda>later.
       Inr (pushIf opportunity1 @ pushIf opportunity2 @ later))))"

fun comparePrices ::
  "int \<Rightarrow> string \<Rightarrow> string \<Rightarrow> (string \<times> Price) list \<Rightarrow> error + ArbitrageOpportunity list" where
  "comparePrices now tokenA tokenB [] = Inr []"
| "comparePrices now tokenA tokenB (e # rest) =
     bindE (compareWith now tokenA tokenB e rest) (\<lambda>found.
     bindE (comparePrices now tokenA tokenB rest) (\<lambda>later. Inr (found @ later)))"

definition detectOpportunitiesForPair ::
  "PriceAggregator \<Rightarrow> int \<Rightarrow> string \<Rightarrow> string \<Rightarrow> error + ArbitrageOpportunity list" where
  "detectOpportunitiesForPair agg now tokenA tokenB =
     (let prices = fetchPrices (scanners agg) tokenA tokenB
      in if length prices < 2 then Inr [] else comparePrices now tokenA tokenB prices)"

text \<open>
  The scan of all monitored pairs: a pair whose scan throws is logged and skipped. Every
  key that \<open>addPair\<close> stores contains the separator, so the branch where the second
  token is \<open>undefined\<close> is never taken for a stored key; there the scan is taken to
  find nothing.
\<close>

definition detectOpportunities :: "PriceAggregator \<Rightarrow> int \<Rightarrow> ArbitrageOpportunity list" where
  "detectOpportunities agg now =
     concat (map (\<lambda>pairKey.
                    case parsePairKey pairKey of
                      (tokenA, Some tokenB) \<Rightarrow>
                        (case detectOpportunitiesForPair agg now tokenA tokenB of
                           Inl e \<Rightarrow> []
                         | Inr pairOpportunities \<Rightarrow> pairOpportunities)
                    | (tokenA, None) \<Rightarrow> [])
                 (monitoredPairs agg))"

section \<open>OpportunityValidator\<close>

text \<open>
  A verdict carries texts built from templates. The model keeps each template as a
  constructor and the interpolated values as its arguments; the rendering of a number
  (\<open>toFixed\<close>) is left out, so two verdicts that are equal here are equal as texts.
\<close>

datatype message =
    InvalidTokenIn string
  | InvalidTokenOut string
  | SameTokens
  | TokenInBlacklisted string
  | TokenOutBlacklisted string
  | TokenInNotWhitelisted string
  | TokenOutNotWhitelisted string
  | SameDex
  | BuyDexBlacklisted string
  | SellDexBlacklisted string
  | InvalidBuyPool string
  | InvalidSellPool string
  | BuyPriceNotPositive
  | SellPriceNotPositive
  | SellNotHigher
  | VeryHighDifference rat
  | LowDifference rat
  | LiquidityNotPositive
  | InsufficientLiquidity rat rat
  | LowLiquidity rat
  | ProfitNotPositive
  | ProfitBelowMinimum rat rat
  | MarginalProfit rat
  | NoEstimatedProfit
  | Stale rat rat
  | Aging rat

record ValidationResult =
  isValid :: bool
  reason :: "message option"
  warnings :: "message list option"

text \<open>
  The validator's state. The lists of the constructor's options are sets here (only
  membership is read); \<open>validator_config\<close> is the \<open>NetworkConfig\<close> it was built with.
\<close>

record OpportunityValidator =
  validator_config :: NetworkConfig
  blacklistedTokens :: "string set"
  whitelistedTokens :: "string set"
  blacklistedDexes :: "string set"
  minLiquidityUSD :: rat
  useWhitelist :: bool

record ValidatorOptions =
  opt_blacklistedTokens :: "string list option"
  opt_whitelistedTokens :: "string list option"
  opt_blacklistedDexes :: "string list option"
  opt_minLiquidityUSD :: "rat option"
  opt_useWhitelist :: "bool option"

definition optional :: "'o option \<Rightarrow> ('o \<Rightarrow> 'a option) \<Rightarrow> 'a option" where
  \<comment> \<open>\<open>options?.field\<close>\<close>
  "optional options field = (case options of None \<Rightarrow> None | Some opts \<Rightarrow> field opts)"

definition OpportunityValidator_new ::
  "NetworkConfig \<Rightarrow> ValidatorOptions option \<Rightarrow> OpportunityValidator" where
  "OpportunityValidator_new cfg options =
     \<lparr>validator_config = cfg,
      blacklistedTokens =
        (case optional options opt_blacklistedTokens of
           None \<Rightarrow> {} | Some ts \<Rightarrow> set (map toLowerCase ts)),
      whitelistedTokens =
        (case optional options opt_whitelistedTokens of
           None \<Rightarrow> {} | Some ts \<Rightarrow> set (map toLowerCase ts)),
      blacklistedDexes =
        (case optional options opt_blacklistedDexes of None \<Rightarrow> {} | Some ds \<Rightarrow> set ds),
      minLiquidityUSD =
        (case optional options opt_minLiquidityUSD of
           None \<Rightarrow> 10000 | Some m \<Rightarrow> if m = 0 then 10000 else m),
      useWhitelist =
        (case optional options opt_useWhitelist of None \<Rightarrow> False | Some b \<Rightarrow> b)\<rparr>"

definition valid :: ValidationResult where
  \<comment> \<open>\<open>{ isValid: true }\<close>\<close>
  "valid = \<lparr>isValid = True, reason = None, warnings = None\<rparr>"

definition invalid :: "message \<Rightarrow> ValidationResult" where
  \<comment> \<open>\<open>{ isValid: false, reason }\<close>\<close>
  "invalid r = \<lparr>isValid = False, reason = Some r, warnings = None\<rparr>"

definition validWith :: "message list \<Rightarrow> ValidationResult" where
  \<comment> \<open>\<open>{ isValid: true, warnings: warnings.length > 0 ? warnings : undefined }\<close>\<close>
  "validWith ws = \<lparr>isValid = True, reason = None, warnings = (if length ws > 0 then Some ws else None)\<rparr>"

text \<open>
  \<open>ethers.utils.isAddress\<close> is a parameter of the model: it hashes a mixed-case address
  to check its checksum, which is outside this development.
\<close>

definition validateTokens ::
  "(string \<Rightarrow> bool) \<Rightarrow> OpportunityValidator \<Rightarrow> ArbitrageOpportunity \<Rightarrow> ValidationResult" where
  "validateTokens isAddress v opp =
     (if \<not> isAddress (tokenIn opp) then invalid (InvalidTokenIn (tokenIn opp))
      else if \<not> isAddress (tokenOut opp) then invalid (InvalidTokenOut (tokenOut opp))
      else if toLowerCase (tokenIn opp) = toLowerCase (tokenOut opp) then invalid SameTokens
      else let tokenInLower = toLowerCase (tokenIn opp);
               tokenOutLower = toLowerCase (tokenOut opp)
        in if tokenInLower \<in> blacklistedTokens v then invalid (TokenInBlacklisted (tokenIn opp))
           else if tokenOutLower \<in> blacklistedTokens v then invalid (TokenOutBlacklisted (tokenOut opp))
           else if useWhitelist v \<and> tokenInLower \<notin> whitelistedTokens v
             then invalid (TokenInNotWhitelisted (tokenIn opp))
           else if useWhitelist v \<and> tokenOutLower \<notin> whitelistedTokens v
             then invalid (TokenOutNotWhitelisted (tokenOut opp))
           else valid)"

definition validateDexes ::
  "(string \<Rightarrow> bool) \<Rightarrow> OpportunityValidator \<Rightarrow> ArbitrageOpportunity \<Rightarrow> ValidationResult" where
  "validateDexes isAddress v opp =
     (if buyDex opp = sellDex opp then invalid SameDex
      else if buyDex opp \<in> blacklistedDexes v then invalid (BuyDexBlacklisted (buyDex opp))
      else if sellDex opp \<in> blacklistedDexes v then invalid (SellDexBlacklisted (sellDex opp))
      else if \<not> isAddress (buyPoolAddress opp) then invalid (InvalidBuyPool (buyPoolAddress opp))
      else if \<not> isAddress (sellPoolAddress opp) then invalid (InvalidSellPool (sellPoolAddress opp))
      else valid)"

definition validatePrices :: "ArbitrageOpportunity \<Rightarrow> error + ValidationResult" where
  "validatePrices opp =
     (if buyPrice opp \<le> 0 then Inr (invalid BuyPriceNotPositive)
      else if sellPrice opp \<le> 0 then Inr (invalid SellPriceNotPositive)
      else if sellPrice opp \<le> buyPrice opp then Inr (invalid SellNotHigher)
      else let priceDiff = sellPrice opp - buyPrice opp in
        bindE (bn_div (priceDiff * 10000) (buyPrice opp)) (\<lambda>q.
        bindE (toNumber q) (\<lambda>n.
          let diffPercentage = n / 100;
              warnings1 = (if diffPercentage > 10 then [VeryHighDifference diffPercentage] else []);
              warnings2 = warnings1 @
                (if diffPercentage < 3 / 10 then [LowDifference diffPercentage] else [])
          in Inr (validWith warnings2))))"

definition validateLiquidity :: "OpportunityValidator \<Rightarrow> ArbitrageOpportunity \<Rightarrow> ValidationResult" where
  "validateLiquidity v opp =
     (if availableLiquidity opp \<le> 0 then invalid LiquidityNotPositive
      else let liquidityETH = of_int (availableLiquidity opp) / 10 ^ 18;
               estimatedUSD = liquidityETH * 2000
        in if estimatedUSD < minLiquidityUSD v
             then invalid (InsufficientLiquidity estimatedUSD (minLiquidityUSD v))
           else validWith
                  (if estimatedUSD < minLiquidityUSD v * (3 / 2) then [LowLiquidity estimatedUSD]
                   else []))"

definition validateProfitPotential ::
  "OpportunityValidator \<Rightarrow> ArbitrageOpportunity \<Rightarrow> ValidationResult" where
  "validateProfitPotential v opp =
     (case estimatedProfit opp of
        Some estimatedProfit' \<Rightarrow>
          if estimatedProfit' \<le> 0 then invalid ProfitNotPositive
          else let profitETH = of_int estimatedProfit' / 10 ^ 18;
                   profitUSD = profitETH * 2000;
                   minProfitUSD' = minProfitUSD (execution (validator_config v))
            in if profitUSD < minProfitUSD'
                 then invalid (ProfitBelowMinimum profitUSD minProfitUSD')
               else validWith
                      (if profitUSD < minProfitUSD' * (6 / 5) then [MarginalProfit profitUSD]
                       else [])
      | None \<Rightarrow> validWith [NoEstimatedProfit])"

text \<open>\<open>now\<close> is the reading of \<open>Date.now()\<close> that the freshness stage takes.\<close>

definition validateFreshness :: "int \<Rightarrow> ArbitrageOpportunity \<Rightarrow> ValidationResult" where
  "validateFreshness now opp =
     (let ageMs = now - timestamp opp;
          ageSeconds = (of_int ageMs :: rat) / 1000;
          maxAgeSeconds = 60
      in if ageSeconds > maxAgeSeconds then invalid (Stale ageSeconds maxAgeSeconds)
         else validWith (if ageSeconds > maxAgeSeconds / 2 then [Aging ageSeconds] else []))"

definition pushWarnings :: "message list \<Rightarrow> ValidationResult \<Rightarrow> message list" where
  \<comment> \<open>\<open>if (r.warnings) warnings.push(...r.warnings)\<close>\<close>
  "pushWarnings ws r = (case warnings r of None \<Rightarrow> ws | Some ws' \<Rightarrow> ws @ ws')"

definition validate ::
  "(string \<Rightarrow> bool) \<Rightarrow> OpportunityValidator \<Rightarrow> int \<Rightarrow> ArbitrageOpportunity
     \<Rightarrow> error + ValidationResult" where
  "validate isAddress v now opp =
     (let warnings0 = [];
          tokenValidation = validateTokens isAddress v opp
      in if \<not> isValid tokenValidation then Inr tokenValidation
      else let warnings1 = pushWarnings warnings0 tokenValidation;
               dexValidation = validateDexes isAddress v opp
      in if \<not> isValid dexValidation then Inr dexValidation
      else let warnings2 = pushWarnings warnings1 dexValidation
      in bindE (validatePrices opp) (\<lambda>priceValidation.
         if \<not> isValid priceValidation then Inr priceValidation
         else let warnings3 = pushWarnings warnings2 priceValidation;
                  liquidityValidation = validateLiquidity v opp
         in if \<not> isValid liquidityValidation then Inr liquidityValidation
         else let warnings4 = pushWarnings warnings3 liquidityValidation;
                  profitValidation = validateProfitPotential v opp
         in if \<not> isValid profitValidation then Inr profitValidation
         else let warnings5 = pushWarnings warnings4 profitValidation;
                  freshnessValidation = validateFreshness now opp
         in if \<not> isValid freshnessValidation then Inr freshnessValidation
         else let warnings6 = pushWarnings warnings5 freshnessValidation
         in Inr (validWith warnings6)))"

section \<open>The specification's trade sizing\<close>

text \<open>
  The recommended amount as the specification words it: the smaller of the maximum trade
  size and a tenth of the available liquidity, floored at 0.1 units (\<open>10^17\<close> wei).
\<close>

definition spec_recommendedAmount :: "int \<Rightarrow> int \<Rightarrow> int" where
  "spec_recommendedAmount maxTradeSize' availableLiquidity' =
     (let m = min maxTradeSize' (availableLiquidity' div 10)
      in if m < 10 ^ 17 then 10 ^ 17 else m)"

section \<open>Example configurations and inputs\<close>

text \<open>
  \<open>defaultConfig\<close> holds the defaults of \<^verbatim>\<open>config/index.ts\<close>: Aave at 0.09 percent,
  three venues at 30 basis points, a gas price ceiling of 100 gwei, a maximum slippage of
  50 basis points and a maximum trade size of 10 units.
\<close>

definition defaultConfig :: NetworkConfig where
  "defaultConfig =
     \<lparr>aave = Some \<lparr>pool = ''0x87870Bca3F3fD6335C3F4ce8392D69350B4fA4E2'',
                    aave_feePercentage = 9 / 100\<rparr>,
      dexes = [Some \<lparr>name = ''Uniswap V2'', feePercentage = 30\<rparr>,
               Some \<lparr>name = ''SushiSwap'', feePercentage = 30\<rparr>,
               Some \<lparr>name = ''Uniswap V3'', feePercentage = 30\<rparr>],
      execution = \<lparr>minProfitUSD = 50, minProfitPercentage = 1 / 2,
                   maxGasPrice = Inr (100 * 10 ^ 9), maxSlippage = 50,
                   maxTradeSize = Inr (10 * 10 ^ 18)\<rparr>\<rparr>"

text \<open>The default configuration with the provider fee set to zero.\<close>

definition zeroProviderFeeConfig :: NetworkConfig where
  "zeroProviderFeeConfig =
     defaultConfig\<lparr>aave := Some \<lparr>pool = ''0x87870Bca3F3fD6335C3F4ce8392D69350B4fA4E2'',
                                   aave_feePercentage = 0\<rparr>\<rparr>"

text \<open>
  A configuration under which the three deductions vanish: a provider fee of 0.001
  percent rounds to 0 basis points, the two venue fees of 30 and -30 basis points cancel
  (a venue fee set to 0 would be read as 30), and the gas price ceiling is 0.
\<close>

definition zeroFeeConfig :: NetworkConfig where
  "zeroFeeConfig =
     \<lparr>aave = Some \<lparr>pool = ''0x87870Bca3F3fD6335C3F4ce8392D69350B4fA4E2'',
                    aave_feePercentage = 1 / 1000\<rparr>,
      dexes = [Some \<lparr>name = ''Uniswap V2'', feePercentage = 30\<rparr>,
               Some \<lparr>name = ''SushiSwap'', feePercentage = - 30\<rparr>],
      execution = \<lparr>minProfitUSD = 50, minProfitPercentage = 1 / 2,
                   maxGasPrice = Inr 0, maxSlippage = 50,
                   maxTradeSize = Inr (10 * 10 ^ 18)\<rparr>\<rparr>"

text \<open>
  An opportunity detected at time 1000 ms: buy at 100 on one venue, sell at 105 on the
  other, prices at the 18-decimal scale.
\<close>

definition exampleOpportunity :: ArbitrageOpportunity where
  "exampleOpportunity =
     \<lparr>opp_id = ''0xaaaaaaaaaaaaaaaaaaaaaaaaaaaaaaaaaaaaaaaa-0xbbbbbbbbbbbbbbbbbbbbbbbbbbbbbbbbbbbbbbbb-Uniswap V2-SushiSwap-1000'',
      tokenIn = ''0xaaaaaaaaaaaaaaaaaaaaaaaaaaaaaaaaaaaaaaaa'',
      tokenOut = ''0xbbbbbbbbbbbbbbbbbbbbbbbbbbbbbbbbbbbbbbbb'',
      buyDex = ''Uniswap V2'',
      sellDex = ''SushiSwap'',
      buyPrice = 100 * 10 ^ 18,
      sellPrice = 105 * 10 ^ 18,
      buyPoolAddress = ''0x1111111111111111111111111111111111111111'',
      sellPoolAddress = ''0x2222222222222222222222222222222222222222'',
      availableLiquidity = 10 * 10 ^ 18,
      timestamp = 1000,
      blockNumber = 7,
      estimatedProfit = Some (5 * 10 ^ 18)\<rparr>"

definition zeroFeeAnalysis :: ProfitAnalysis where
  "zeroFeeAnalysis =
     \<lparr>opportunity = exampleOpportunity,
      grossProfit = 5 * 10 ^ 18,
      flashLoanFee = 0,
      gasCost = 0,
      dexFees = 0,
      netProfit = 5 * 10 ^ 18,
      profitPercentage = 500,
      recommendedAmount = 10 ^ 18,
      isExecutable = False,
      priceImpact = \<lparr>buy = 1, sell = 1\<rparr>\<rparr>"

definition defaultAnalysis :: ProfitAnalysis where
  "defaultAnalysis =
     \<lparr>opportunity = exampleOpportunity,
      grossProfit = 5 * 10 ^ 18,
      flashLoanFee = 9 * 10 ^ 14,
      gasCost = 4 * 10 ^ 16,
      dexFees = 6 * 10 ^ 15,
      netProfit = 49531 * 10 ^ 14,
      profitPercentage = 49531 / 100,
      recommendedAmount = 10 ^ 18,
      isExecutable = False,
      priceImpact = \<lparr>buy = 1, sell = 1\<rparr>\<rparr>"

text \<open>Two venues that quote 100 and 105 for whatever pair they are asked about.\<close>

definition uniswapQuote :: "string \<Rightarrow> string \<Rightarrow> Price" where
  "uniswapQuote tokenA tokenB =
     \<lparr>p_tokenA = tokenA, p_tokenB = tokenB, price = 100 * 10 ^ 18, inversePrice = 10 ^ 16,
      p_blockNumber = 7, p_timestamp = 990, source = ''Uniswap V2'',
      poolAddress = Some ''0x1111111111111111111111111111111111111111''\<rparr>"

definition sushiQuote :: "string \<Rightarrow> string \<Rightarrow> Price" where
  "sushiQuote tokenA tokenB =
     \<lparr>p_tokenA = tokenA, p_tokenB = tokenB, price = 105 * 10 ^ 18,
      inversePrice = 9523809523809523,
      p_blockNumber = 7, p_timestamp = 995, source = ''SushiSwap'',
      poolAddress = Some ''0x2222222222222222222222222222222222222222''\<rparr>"

definition exampleAggregator :: PriceAggregator where
  "exampleAggregator =
     PriceAggregator_new
       [\<lparr>dex_config = \<lparr>name = ''Uniswap V2'', feePercentage = 30\<rparr>, isInitialized = True,
         getPrice = (\<lambda>tokenA tokenB. Inr (uniswapQuote tokenA tokenB))\<rparr>,
        \<lparr>dex_config = \<lparr>name = ''SushiSwap'', feePercentage = 30\<rparr>, isInitialized = True,
         getPrice = (\<lambda>tokenA tokenB. Inr (sushiQuote tokenA tokenB))\<rparr>]"

definition sameTokenOpportunity :: ArbitrageOpportunity where
  "sameTokenOpportunity =
     exampleOpportunity
       \<lparr>opp_id := ''0xaaaaaaaaaaaaaaaaaaaaaaaaaaaaaaaaaaaaaaaa-0xaaaaaaaaaaaaaaaaaaaaaaaaaaaaaaaaaaaaaaaa-Uniswap V2-SushiSwap-1000'',
        tokenOut := ''0xaaaaaaaaaaaaaaaaaaaaaaaaaaaaaaaaaaaaaaaa''\<rparr>"

text \<open>
  On a string of lower-case hexadecimal digits \<open>ethers.utils.isAddress\<close> checks no
  checksum: it accepts exactly \<open>0x\<close> followed by 40 digits. \<open>isLowerCaseAddress\<close> is
  that fragment; the examples pass it for the address test and apply it to lower-case
  strings only.
\<close>

definition isLowerCaseAddress :: "string \<Rightarrow> bool" where
  "isLowerCaseAddress s =
     (length s = 42 \<and> take 2 s = ''0x'' \<and>
      list_all (\<lambda>c. c \<in> set ''0123456789abcdef'') (drop 2 s))"

definition defaultValidator :: OpportunityValidator where
  "defaultValidator = OpportunityValidator_new defaultConfig None"

section \<open>Facts about the number operations\<close>

lemmas profit_defs =
  calculateProfit_def calculateOptimalAmount_def calculateGrossProfit_def
  calculateFlashLoanFee_def calculateDexFees_def getDexFee_def estimateGasCost_def
  calculateProfitPercentage_def calculatePriceImpactPercent_def isOpportunityExecutable_def
  convertToUSD_def ProfitCalculator_new_def bindE_def bn_div_def bn_mul_number_def
  bn_from_number_def toNumber_def Math_round_def WeiPerEther_def MAX_SAFE_def

lemmas aggregator_defs =
  detectOpportunitiesForPair_def fetchPrices_def createOpportunityIfProfitable_def
  generateOpportunityId_def number_toString_def digit_def orAddressZero_def pushIf_def
  PriceAggregator_new_def getName_def isReady_def bindE_def bn_div_def toNumber_def

lemmas validator_defs =
  validate_def validateTokens_def validateDexes_def validatePrices_def validateLiquidity_def
  validateProfitPotential_def validateFreshness_def pushWarnings_def valid_def invalid_def
  validWith_def bindE_def bn_div_def toNumber_def toLowerCase_def toLowerCase_char_def
  isLowerCaseAddress_def OpportunityValidator_new_def optional_def

lemma floor_rat_numeral_div [simp]:
  "\<lfloor>numeral a / numeral b :: rat\<rfloor> = numeral a div numeral b"
  by (metis floor_divide_of_int_eq of_int_numeral)

lemma floor_rat_one_numeral_div [simp]:
  "\<lfloor>1 / numeral b :: rat\<rfloor> = 1 div numeral b"
  by (metis floor_divide_of_int_eq of_int_1 of_int_numeral)

lemma bn_div_nonneg: "0 \<le> a \<Longrightarrow> 0 < b \<Longrightarrow> bn_div a b = Inr (a div b)"
  by (simp add: bn_div_def sgn_if)

lemma bn_div_neg_pos: "a < 0 \<Longrightarrow> 0 < b \<Longrightarrow> \<exists>q. bn_div a b = Inr q \<and> q \<le> 0"
  by (simp add: bn_div_def sgn_if pos_imp_zdiv_nonneg_iff)

lemma bn_div_nonneg_neg: "0 \<le> a \<Longrightarrow> b < 0 \<Longrightarrow> \<exists>q. bn_div a b = Inr q \<and> q \<le> 0"
  by (simp add: bn_div_def sgn_if pos_imp_zdiv_nonneg_iff)

lemma percent_of_quotient:
  assumes "0 < (b::int)" and "50 \<le> d * 10000 div b"
  shows "(1 / 2 :: rat) \<le> of_int d / of_int b * 100"
proof -
  have "d * 10000 = (d * 10000) div b * b + (d * 10000) mod b" by simp
  moreover have "0 \<le> (d * 10000) mod b" using assms(1) by simp
  ultimately have "(d * 10000) div b * b \<le> d * 10000" by linarith
  moreover have "50 * b \<le> (d * 10000) div b * b"
    using assms by (simp add: mult_right_mono)
  ultimately have "b \<le> d * 200" by linarith
  then have "(of_int b :: rat) \<le> of_int (d * 200)" by (simp only: of_int_le_iff)
  then have "(of_int b :: rat) \<le> of_int d * 200" by simp
  moreover have "(0 :: rat) < of_int b" using assms(1) by simp
  ultimately show ?thesis by (simp add: field_simps)
qed

section \<open>ProfitCalculator: trade sizing, fees, percentage and price impact\<close>

lemma calculateOptimalAmount_spec:
  assumes "maxTradeSize (execution (config pc)) = Inr m"
  shows "calculateOptimalAmount pc bp sp liq = Inr (spec_recommendedAmount m liq)"
proof (cases "0 \<le> liq")
  case True
  then have "bn_div liq 10 = Inr (liq div 10)" by (simp add: bn_div_nonneg)
  with assms show ?thesis
    by (simp add: calculateOptimalAmount_def spec_recommendedAmount_def bindE_def min_def Let_def)
next
  case False
  then obtain q where q: "bn_div liq 10 = Inr q" "q \<le> 0"
    using bn_div_neg_pos [of liq 10] by auto
  from False have "liq div 10 < 0" by simp
  with q assms show ?thesis
    by (simp add: calculateOptimalAmount_def spec_recommendedAmount_def bindE_def min_def Let_def)
qed

lemma calculateOptimalAmount_ge:
  "calculateOptimalAmount pc bp sp liq = Inr r \<Longrightarrow> 10 ^ 17 \<le> r"
  by (auto simp: calculateOptimalAmount_def bindE_def Let_def bn_div_def
      split: sum.splits if_splits)

lemma calculatePriceImpactPercent_pos:
  "0 < amount \<Longrightarrow> calculatePriceImpactPercent amount p = Inr 1"
  by (simp add: calculatePriceImpactPercent_def bn_div_def toNumber_def bindE_def)

lemma calculateProfit_Inr:
  assumes "calculateProfit pc opp = Inr a"
  shows "calculateGrossProfit (recommendedAmount a) (buyPrice opp) (sellPrice opp)
           = Inr (grossProfit a)"
    and "netProfit a = grossProfit a - flashLoanFee a - dexFees a - gasCost a"
    and "calculateProfitPercentage (netProfit a) (recommendedAmount a)
           = Inr (profitPercentage a)"
    and "calculateFlashLoanFee pc (recommendedAmount a) = Inr (flashLoanFee a)"
    and "calculateDexFees pc (recommendedAmount a) (buyDex opp) (sellDex opp) = Inr (dexFees a)"
    and "estimateGasCost pc = Inr (gasCost a)"
    and "calculateOptimalAmount pc (buyPrice opp) (sellPrice opp) (availableLiquidity opp)
           = Inr (recommendedAmount a)"
    and "opportunity a = opp"
  using assms unfolding calculateProfit_def bindE_def Let_def
  by (auto split: sum.splits)

lemma calculateProfit_priceImpact:
  assumes "calculateProfit pc opp = Inr a"
  shows "priceImpact a = \<lparr>buy = 1, sell = 1\<rparr>"
proof -
  from assms obtain r where
    r: "calculateOptimalAmount pc (buyPrice opp) (sellPrice opp) (availableLiquidity opp) = Inr r"
    by (auto simp: calculateProfit_def bindE_def split: sum.splits)
  then have "0 < r" using calculateOptimalAmount_ge [OF r] by simp
  then have imp: "\<And>p. calculatePriceImpactPercent r p = Inr 1"
    by (rule calculatePriceImpactPercent_pos)
  from assms r show ?thesis
    by (auto simp: calculateProfit_def bindE_def imp Let_def split: sum.splits)
qed

lemma calculateProfit_zeroFee:
  "calculateProfit (ProfitCalculator_new zeroFeeConfig) exampleOpportunity = Inr zeroFeeAnalysis"
  by (simp add: profit_defs zeroFeeConfig_def exampleOpportunity_def zeroFeeAnalysis_def Let_def)

lemma calculateProfit_default:
  "calculateProfit (ProfitCalculator_new defaultConfig) exampleOpportunity = Inr defaultAnalysis"
  by (simp add: profit_defs defaultConfig_def exampleOpportunity_def defaultAnalysis_def Let_def)

text \<open>
  A provider fee other than zero is charged as \<open>amount \<times> bps / 10000\<close>, where
  \<open>bps\<close> is the fee in basis points, rounded to a whole number.
\<close>

lemma calculateFlashLoanFee_nonzero:
  assumes "aave (config pc) = Some a" and "aave_feePercentage a \<noteq> 0"
    and "bps = \<lfloor>aave_feePercentage a * 100 + 1 / 2\<rfloor>"
    and "- MAX_SAFE < bps" and "bps < MAX_SAFE"
  shows "calculateFlashLoanFee pc amount = bn_div (amount * bps) 10000"
proof -
  have r: "Math_round (aave_feePercentage a * 100) = of_int bps"
    by (simp add: Math_round_def assms(3))
  have f: "bn_from_number (of_int bps) = Inr bps"
    using assms(4,5) by (simp add: bn_from_number_def)
  show ?thesis
    by (simp add: calculateFlashLoanFee_def assms(1,2) r bn_mul_number_def f bindE_def)
qed

lemma calculateFlashLoanFee_default:
  "calculateFlashLoanFee (ProfitCalculator_new defaultConfig) (10 ^ 18) = Inr (9 * 10 ^ 14)"
  by (simp add: profit_defs defaultConfig_def Let_def)

text \<open>
  Claim C8. For every buy price, sell price, available liquidity and configured maximum
  trade size, the recommended amount is the smaller of the maximum trade size and a tenth
  of the available liquidity (integer division at the 18-decimal scale), and it is exactly
  0.1 units when that minimum is below 0.1 units.
\<close>

theorem recommended_amount_formula:
  assumes "maxTradeSize (execution (config pc)) = Inr m"
  shows "calculateOptimalAmount pc bp sp liq =
           Inr (if min m (liq div 10) < 10 ^ 17 then 10 ^ 17 else min m (liq div 10))"
  using calculateOptimalAmount_spec [OF assms, of bp sp liq]
  by (simp add: spec_recommendedAmount_def Let_def)

theorem recommended_amount_formula_witness:
  "maxTradeSize (execution (config (ProfitCalculator_new defaultConfig))) = Inr (10 * 10 ^ 18) \<and>
   calculateOptimalAmount (ProfitCalculator_new defaultConfig)
     (100 * 10 ^ 18) (105 * 10 ^ 18) (10 * 10 ^ 18) = Inr (10 ^ 18) \<and>
   calculateOptimalAmount (ProfitCalculator_new defaultConfig)
     (100 * 10 ^ 18) (105 * 10 ^ 18) (5 * 10 ^ 17) = Inr (10 ^ 17) \<and>
   calculateOptimalAmount (ProfitCalculator_new defaultConfig)
     (100 * 10 ^ 18) (105 * 10 ^ 18) (500 * 10 ^ 18) = Inr (10 * 10 ^ 18)"
proof -
  have h: "maxTradeSize (execution (config (ProfitCalculator_new defaultConfig)))
             = Inr (10 * 10 ^ 18)"
    by (simp add: ProfitCalculator_new_def defaultConfig_def)
  from h recommended_amount_formula [OF h, of "100 * 10 ^ 18" "105 * 10 ^ 18" "10 * 10 ^ 18"]
    recommended_amount_formula [OF h, of "100 * 10 ^ 18" "105 * 10 ^ 18" "5 * 10 ^ 17"]
    recommended_amount_formula [OF h, of "100 * 10 ^ 18" "105 * 10 ^ 18" "500 * 10 ^ 18"]
  show ?thesis by simp
qed

text \<open>
  Claim C7. For every strictly positive trade amount and every price, the price-impact
  estimate of a leg is exactly 1 (percent); the recommended amount is always positive, so
  the buy-side and the sell-side price impact of every profit analysis are both 1.
\<close>

theorem price_impact_is_one:
  "(0 < amount \<longrightarrow> calculatePriceImpactPercent amount p = Inr 1) \<and>
   (calculateProfit pc opp = Inr a \<longrightarrow> buy (priceImpact a) = 1 \<and> sell (priceImpact a) = 1)"
  by (simp add: calculatePriceImpactPercent_pos calculateProfit_priceImpact)

theorem price_impact_is_one_witness:
  "(0 :: int) < 10 ^ 18 \<and>
   calculatePriceImpactPercent (10 ^ 18) (100 * 10 ^ 18) = Inr 1 \<and>
   calculateProfit (ProfitCalculator_new defaultConfig) exampleOpportunity = Inr defaultAnalysis \<and>
   buy (priceImpact defaultAnalysis) = 1 \<and> sell (priceImpact defaultAnalysis) = 1"
  using price_impact_is_one [of "10 ^ 18" "100 * 10 ^ 18" "ProfitCalculator_new defaultConfig"
      exampleOpportunity defaultAnalysis] calculateProfit_default
  by simp

text \<open>
  Claim C3, at a provider configured with fee zero. The fee setting is read as
  \<open>feePercentage || 0.09\<close>, and zero is falsy: the calculator charges 9 basis points,
  \<open>9 \<times> 10^14\<close> on an amount of 1.0, where the claim says the fee is zero.
\<close>

theorem flash_loan_fee_at_zero_provider_fee:
  "calculateFlashLoanFee (ProfitCalculator_new zeroProviderFeeConfig) (10 ^ 18) = Inr (9 * 10 ^ 14)"
  by (simp add: profit_defs zeroProviderFeeConfig_def defaultConfig_def Let_def)

text \<open>
  Claim C1, as the calculator computes it. For an opportunity analysed with recommended
  amount 1.0, buy price 100 and sell price 105 (all at the 18-decimal scale) and with
  flash-loan fee, venue fees and gas cost all zero, the net profit is 5 (at the same
  scale) and the profit percentage, net profit / amount \<open>\<times>\<close> 100, is 500.
\<close>

theorem profit_percentage_scenario:
  assumes "calculateProfit pc opp = Inr a"
    and "recommendedAmount a = 10 ^ 18"
    and "buyPrice opp = 100 * 10 ^ 18" and "sellPrice opp = 105 * 10 ^ 18"
    and "flashLoanFee a = 0" and "dexFees a = 0" and "gasCost a = 0"
  shows "netProfit a = 5 * 10 ^ 18 \<and> profitPercentage a = 500"
proof -
  have "calculateGrossProfit (10 ^ 18) (100 * 10 ^ 18) (105 * 10 ^ 18) = Inr (grossProfit a)"
    using calculateProfit_Inr(1) [OF assms(1)] assms(2-4) by simp
  then have g: "grossProfit a = 5 * 10 ^ 18"
    by (simp add: calculateGrossProfit_def bn_div_def WeiPerEther_def)
  then have n: "netProfit a = 5 * 10 ^ 18"
    using calculateProfit_Inr(2) [OF assms(1)] assms(5-7) by simp
  have "calculateProfitPercentage (5 * 10 ^ 18) (10 ^ 18) = Inr (profitPercentage a)"
    using calculateProfit_Inr(3) [OF assms(1)] n assms(2) by simp
  then have "profitPercentage a = 500"
    by (simp add: calculateProfitPercentage_def bn_div_def toNumber_def bindE_def)
  with n show ?thesis by simp
qed

theorem profit_percentage_scenario_witness:
  "calculateProfit (ProfitCalculator_new zeroFeeConfig) exampleOpportunity = Inr zeroFeeAnalysis \<and>
   recommendedAmount zeroFeeAnalysis = 10 ^ 18 \<and>
   buyPrice exampleOpportunity = 100 * 10 ^ 18 \<and> sellPrice exampleOpportunity = 105 * 10 ^ 18 \<and>
   flashLoanFee zeroFeeAnalysis = 0 \<and> dexFees zeroFeeAnalysis = 0 \<and> gasCost zeroFeeAnalysis = 0 \<and>
   netProfit zeroFeeAnalysis = 5 * 10 ^ 18 \<and> profitPercentage zeroFeeAnalysis = 500"
proof -
  have h: "recommendedAmount zeroFeeAnalysis = 10 ^ 18"
    "buyPrice exampleOpportunity = 100 * 10 ^ 18" "sellPrice exampleOpportunity = 105 * 10 ^ 18"
    "flashLoanFee zeroFeeAnalysis = 0" "dexFees zeroFeeAnalysis = 0" "gasCost zeroFeeAnalysis = 0"
    by (simp_all add: zeroFeeAnalysis_def exampleOpportunity_def)
  from profit_percentage_scenario [OF calculateProfit_zeroFee h] calculateProfit_zeroFee h
  show ?thesis by simp
qed

text \<open>
  The scenario of claim C1 evaluated: with all deductions zero the analysis reports a
  profit percentage of 500, not 5. Read with unscaled prices 100 and 105, the net profit
  is 5 wei and the percentage is 0.
\<close>

theorem profit_percentage_not_five:
  "calculateProfit (ProfitCalculator_new zeroFeeConfig) exampleOpportunity = Inr zeroFeeAnalysis \<and>
   netProfit zeroFeeAnalysis = 5 * 10 ^ 18 \<and>
   profitPercentage zeroFeeAnalysis = 500 \<and>
   profitPercentage zeroFeeAnalysis \<noteq> 5 \<and>
   calculateGrossProfit (10 ^ 18) (100 * 10 ^ 18) (105 * 10 ^ 18) = Inr (5 * 10 ^ 18) \<and>
   calculateProfitPercentage (5 * 10 ^ 18 - 0 - 0 - 0) (10 ^ 18) = Inr 500 \<and>
   calculateGrossProfit (10 ^ 18) 100 105 = Inr 5 \<and>
   calculateProfitPercentage (5 - 0 - 0 - 0) (10 ^ 18) = Inr 0"
  by (simp add: calculateProfit_zeroFee)
    (simp add: zeroFeeAnalysis_def calculateGrossProfit_def calculateProfitPercentage_def
      bn_div_def toNumber_def bindE_def WeiPerEther_def)

section \<open>PriceAggregator: pair keys\<close>

lemma getPairKey_min_max:
  "getPairKey a b =
     min (toLowerCase a) (toLowerCase b) @ ''-'' @ max (toLowerCase a) (toLowerCase b)"
  by (auto simp: getPairKey_def Let_def min_def max_def)

lemma getPairKey_commute: "getPairKey a b = getPairKey b a"
  by (simp add: getPairKey_min_max min.commute max.commute)

lemma split_on_nonempty: "split_on c s \<noteq> []"
  by (induction s) (auto split: list.splits)

lemma split_on_separator: "2 \<le> length (split_on c (s @ c # t))"
proof (induction s)
  case Nil
  have "1 \<le> length (split_on c t)"
    using split_on_nonempty [of c t] by (cases "split_on c t") auto
  then show ?case by simp
next
  case (Cons x s)
  then show ?case by (auto split: list.splits)
qed

text \<open>Every stored key parses into two tokens: the second one is never \<open>undefined\<close>.\<close>

lemma parsePairKey_getPairKey: "\<exists>x y. parsePairKey (getPairKey a b) = (x, Some y)"
proof -
  obtain s t where k: "getPairKey a b = s @ CHR ''-'' # t"
    by (simp add: getPairKey_min_max)
  have "2 \<le> length (split_on (CHR ''-'') (getPairKey a b))"
    unfolding k by (rule split_on_separator)
  then obtain x y zs where "split_on (CHR ''-'') (getPairKey a b) = x # y # zs"
    by (cases "split_on (CHR ''-'') (getPairKey a b)" rule: list.exhaust;
        simp; case_tac x22; simp)
  then show ?thesis by (simp add: parsePairKey_def)
qed

lemma getPairKey_example:
  "getPairKey ''0xAAAAaaaaaaaaaaaaaaaaaaaaaaaaaaaaaaaaaaaa''
              ''0xaaaaaaaaaaAAaaaaaaaaaaaaaaaaaaaaaaaaaaaa''
     = ''0xaaaaaaaaaaaaaaaaaaaaaaaaaaaaaaaaaaaaaaaa-0xaaaaaaaaaaaaaaaaaaaaaaaaaaaaaaaaaaaaaaaa''"
  by (simp add: getPairKey_def toLowerCase_def toLowerCase_char_def Let_def)

lemma parsePairKey_example:
  "parsePairKey
     ''0xaaaaaaaaaaaaaaaaaaaaaaaaaaaaaaaaaaaaaaaa-0xaaaaaaaaaaaaaaaaaaaaaaaaaaaaaaaaaaaaaaaa''
     = (''0xaaaaaaaaaaaaaaaaaaaaaaaaaaaaaaaaaaaaaaaa'',
        Some ''0xaaaaaaaaaaaaaaaaaaaaaaaaaaaaaaaaaaaaaaaa'')"
  by (simp add: parsePairKey_def)

lemma getPairKey_tokens:
  "getPairKey ''0xaaaaaaaaaaaaaaaaaaaaaaaaaaaaaaaaaaaaaaaa''
              ''0xbbbbbbbbbbbbbbbbbbbbbbbbbbbbbbbbbbbbbbbb''
     = ''0xaaaaaaaaaaaaaaaaaaaaaaaaaaaaaaaaaaaaaaaa-0xbbbbbbbbbbbbbbbbbbbbbbbbbbbbbbbbbbbbbbbb''"
  by (simp add: getPairKey_def toLowerCase_def toLowerCase_char_def Let_def)

lemma parsePairKey_tokens:
  "parsePairKey
     ''0xaaaaaaaaaaaaaaaaaaaaaaaaaaaaaaaaaaaaaaaa-0xbbbbbbbbbbbbbbbbbbbbbbbbbbbbbbbbbbbbbbbb''
     = (''0xaaaaaaaaaaaaaaaaaaaaaaaaaaaaaaaaaaaaaaaa'',
        Some ''0xbbbbbbbbbbbbbbbbbbbbbbbbbbbbbbbbbbbbbbbb'')"
  by (simp add: parsePairKey_def)

text \<open>
  The monitored set starts empty and changes by \<open>addPair\<close> and \<open>removePair\<close> only,
  so each of its keys was built by \<open>getPairKey\<close>, and it never holds a key twice.
\<close>

lemma monitoredPairs_new: "monitoredPairs (PriceAggregator_new scs) = []"
  by (simp add: PriceAggregator_new_def)

lemma monitoredPairs_addPair:
  "set (monitoredPairs (addPair agg a b)) = insert (getPairKey a b) (set (monitoredPairs agg))"
  by (auto simp: addPair_def Set_add_def Let_def)

lemma monitoredPairs_removePair:
  "set (monitoredPairs (removePair agg a b)) = set (monitoredPairs agg) - {getPairKey a b}"
  by (auto simp: removePair_def Set_delete_def Let_def)

lemma monitoredPairs_distinct:
  "distinct (monitoredPairs agg) \<Longrightarrow>
   distinct (monitoredPairs (addPair agg a b)) \<and> distinct (monitoredPairs (removePair agg a b))"
  by (simp add: addPair_def removePair_def Set_add_def Set_delete_def Let_def distinct_removeAll)

text \<open>
  Claim C9. For every two token addresses A and B, \<open>addPair(A,B)\<close> and
  \<open>addPair(B,A)\<close> produce the same single monitored entry: the pair key is the
  lower-cased, lexicographically ordered concatenation of the two addresses, so the order
  of the arguments creates no duplicate entry, and the monitored pairs reported after
  either call are the same.
\<close>

theorem pair_key_order_independent:
  "getPairKey a b = getPairKey b a \<and>
   getPairKey a b =
     min (toLowerCase a) (toLowerCase b) @ ''-'' @ max (toLowerCase a) (toLowerCase b) \<and>
   addPair agg a b = addPair agg b a \<and>
   getMonitoredPairs (addPair agg a b) = getMonitoredPairs (addPair agg b a) \<and>
   addPair (addPair agg a b) b a = addPair agg a b \<and>
   monitoredPairs (addPair (addPair (PriceAggregator_new scs) a b) b a) = [getPairKey a b]"
proof (intro conjI)
  show k: "getPairKey a b = getPairKey b a" by (rule getPairKey_commute)
  show "getPairKey a b =
     min (toLowerCase a) (toLowerCase b) @ ''-'' @ max (toLowerCase a) (toLowerCase b)"
    by (rule getPairKey_min_max)
  show s: "addPair agg a b = addPair agg b a"
    by (simp add: addPair_def k)
  show "getMonitoredPairs (addPair agg a b) = getMonitoredPairs (addPair agg b a)"
    by (simp only: s)
  show "addPair (addPair agg a b) b a = addPair agg a b"
    by (simp add: addPair_def k [symmetric] Set_add_def Let_def)
  show "monitoredPairs (addPair (addPair (PriceAggregator_new scs) a b) b a) = [getPairKey a b]"
    by (simp add: addPair_def k [symmetric] Set_add_def Let_def PriceAggregator_new_def)
qed

theorem pair_key_order_independent_witness:
  "getPairKey ''0xBb'' ''0xaA'' = ''0xaa-0xbb'' \<and>
   getPairKey ''0xaA'' ''0xBb'' = ''0xaa-0xbb'' \<and>
   getMonitoredPairs (addPair (addPair (PriceAggregator_new []) ''0xBb'' ''0xaA'') ''0xaA'' ''0xBb'')
     = [(''0xaa'', Some ''0xbb'')]"
proof -
  have k: "getPairKey ''0xaA'' ''0xBb'' = ''0xaa-0xbb''"
    by (simp add: getPairKey_def toLowerCase_def toLowerCase_char_def Let_def)
  have p: "parsePairKey ''0xaa-0xbb'' = (''0xaa'', Some ''0xbb'')"
    by (simp add: parsePairKey_def)
  note t = pair_key_order_independent [of "''0xBb''" "''0xaA''" "PriceAggregator_new []" "[]"]
  have a: "getPairKey ''0xBb'' ''0xaA'' = getPairKey ''0xaA'' ''0xBb''"
    using t by blast
  have m: "monitoredPairs
             (addPair (addPair (PriceAggregator_new []) ''0xBb'' ''0xaA'') ''0xaA'' ''0xBb'')
           = [getPairKey ''0xBb'' ''0xaA'']"
    using t by blast
  show ?thesis
    unfolding getMonitoredPairs_def m a k by (simp add: p)
qed

section \<open>PriceAggregator: synthesis\<close>

lemma Map_set_keys:
  "map fst (Map_set k v m) = (if k \<in> set (map fst m) then map fst m else map fst m @ [k])"
  by (induction m) (auto simp: rev_image_eqI)

lemma Map_set_distinct: "distinct (map fst m) \<Longrightarrow> distinct (map fst (Map_set k v m))"
  by (simp add: Map_set_keys)

lemma fold_fetch_distinct:
  "distinct (map fst acc) \<Longrightarrow>
   distinct (map fst (fold (\<lambda>(dexName, scanner) prices.
             if \<not> isReady scanner then prices
             else (case getPrice scanner tokenA tokenB of
                     Inl e \<Rightarrow> prices
                   | Inr p \<Rightarrow> Map_set dexName p prices)) scs acc))"
proof (induction scs arbitrary: acc)
  case Nil
  then show ?case by simp
next
  case (Cons s scs)
  show ?case
    by (cases s) (auto intro!: Cons.IH Cons.prems Map_set_distinct split: sum.splits)
qed

text \<open>The venues that answered are pairwise different: they are the keys of a map.\<close>

lemma fetchPrices_distinct: "distinct (map fst (fetchPrices scs tokenA tokenB))"
  unfolding fetchPrices_def by (rule fold_fetch_distinct) simp

lemma create_Some:
  assumes "createOpportunityIfProfitable now tokenA tokenB bd sd bp sp = Inr (Some opp)"
  shows "price bp < price sp"
    and "0 < price bp"
    and "50 \<le> (price sp - price bp) * 10000 div price bp"
    and "opp = \<lparr>opp_id = generateOpportunityId now tokenA tokenB bd sd,
                 tokenIn = tokenA, tokenOut = tokenB, buyDex = bd, sellDex = sd,
                 buyPrice = price bp, sellPrice = price sp,
                 buyPoolAddress = orAddressZero (poolAddress bp),
                 sellPoolAddress = orAddressZero (poolAddress sp),
                 availableLiquidity = 10 * 10 ^ 18,
                 timestamp = now,
                 blockNumber = max (p_blockNumber bp) (p_blockNumber sp),
                 estimatedProfit = Some (price sp - price bp)\<rparr>"
proof -
  show lt: "price bp < price sp"
    using assms by (auto simp: createOpportunityIfProfitable_def split: if_splits)
  then have d: "0 \<le> (price sp - price bp) * 10000" by simp
  show pos: "0 < price bp"
  proof (rule ccontr)
    assume "\<not> 0 < price bp"
    then consider "price bp = 0" | "price bp < 0" by linarith
    then show False
    proof cases
      case 1
      with assms lt show False
        by (simp add: createOpportunityIfProfitable_def bn_div_def bindE_def)
    next
      case 2
      from bn_div_nonneg_neg [OF d 2] obtain q
        where q: "bn_div ((price sp - price bp) * 10000) (price bp) = Inr q" "q \<le> 0" by blast
      then have "(of_int q :: rat) / 100 < 1 / 2" by simp
      with assms lt q show False
        by (auto simp: createOpportunityIfProfitable_def bindE_def toNumber_def Let_def
            split: if_splits)
    qed
  qed
  have q: "bn_div ((price sp - price bp) * 10000) (price bp)
             = Inr ((price sp - price bp) * 10000 div price bp)"
    by (rule bn_div_nonneg [OF d pos])
  from assms lt q show "50 \<le> (price sp - price bp) * 10000 div price bp"
    by (auto simp: createOpportunityIfProfitable_def bindE_def toNumber_def Let_def
        split: if_splits)
  from assms lt q show "opp = \<lparr>opp_id = generateOpportunityId now tokenA tokenB bd sd,
                 tokenIn = tokenA, tokenOut = tokenB, buyDex = bd, sellDex = sd,
                 buyPrice = price bp, sellPrice = price sp,
                 buyPoolAddress = orAddressZero (poolAddress bp),
                 sellPoolAddress = orAddressZero (poolAddress sp),
                 availableLiquidity = 10 * 10 ^ 18,
                 timestamp = now,
                 blockNumber = max (p_blockNumber bp) (p_blockNumber sp),
                 estimatedProfit = Some (price sp - price bp)\<rparr>"
    by (auto simp: createOpportunityIfProfitable_def bindE_def toNumber_def Let_def
        split: if_splits)
qed

lemma create_not_higher:
  "price sp \<le> price bp \<Longrightarrow>
   createOpportunityIfProfitable now tokenA tokenB bd sd bp sp = Inr None"
  by (simp add: createOpportunityIfProfitable_def)

lemma compareWith_mem:
  assumes "compareWith now tokenA tokenB (d1, p1) rest = Inr opps" and "opp \<in> set opps"
  shows "\<exists>d2 p2. (d2, p2) \<in> set rest \<and>
           (createOpportunityIfProfitable now tokenA tokenB d1 d2 p1 p2 = Inr (Some opp) \<or>
            createOpportunityIfProfitable now tokenA tokenB d2 d1 p2 p1 = Inr (Some opp))"
  using assms
proof (induction rest arbitrary: opps)
  case Nil
  then show ?case by simp
next
  case (Cons e rest)
  obtain d2 p2 where e: "e = (d2, p2)" by (cases e)
  from Cons.prems(1) e obtain o1 o2 later where
    o1: "createOpportunityIfProfitable now tokenA tokenB d1 d2 p1 p2 = Inr o1" and
    o2: "createOpportunityIfProfitable now tokenA tokenB d2 d1 p2 p1 = Inr o2" and
    later: "compareWith now tokenA tokenB (d1, p1) rest = Inr later" and
    opps: "opps = pushIf o1 @ pushIf o2 @ later"
    by (auto simp: bindE_def split: sum.splits)
  from Cons.prems(2) opps
  consider "opp \<in> set (pushIf o1)" | "opp \<in> set (pushIf o2)" | "opp \<in> set later"
    by auto
  then show ?case
  proof cases
    case 1
    then have "o1 = Some opp" by (cases o1) (auto simp: pushIf_def)
    with o1 e show ?thesis by auto
  next
    case 2
    then have "o2 = Some opp" by (cases o2) (auto simp: pushIf_def)
    with o2 e show ?thesis by auto
  next
    case 3
    from Cons.IH [OF later 3] show ?thesis by auto
  qed
qed

lemma comparePrices_mem:
  assumes "comparePrices now tokenA tokenB ps = Inr opps" and "opp \<in> set opps"
    and "distinct (map fst ps)"
  shows "\<exists>d1 p1 d2 p2. d1 \<noteq> d2 \<and> (d1, p1) \<in> set ps \<and> (d2, p2) \<in> set ps \<and>
           createOpportunityIfProfitable now tokenA tokenB d1 d2 p1 p2 = Inr (Some opp)"
  using assms
proof (induction ps arbitrary: opps)
  case Nil
  then show ?case by simp
next
  case (Cons e ps)
  obtain d1 p1 where e: "e = (d1, p1)" by (cases e)
  from Cons.prems(1) e obtain found later where
    found: "compareWith now tokenA tokenB (d1, p1) ps = Inr found" and
    later: "comparePrices now tokenA tokenB ps = Inr later" and
    opps: "opps = found @ later"
    by (auto simp: bindE_def split: sum.splits)
  from Cons.prems(3) e have fresh: "d1 \<notin> fst ` set ps" and dist: "distinct (map fst ps)"
    by auto
  from Cons.prems(2) opps consider "opp \<in> set found" | "opp \<in> set later" by auto
  then show ?case
  proof cases
    case 1
    from compareWith_mem [OF found 1] obtain d2 p2 where
      m: "(d2, p2) \<in> set ps" and
      c: "createOpportunityIfProfitable now tokenA tokenB d1 d2 p1 p2 = Inr (Some opp) \<or>
          createOpportunityIfProfitable now tokenA tokenB d2 d1 p2 p1 = Inr (Some opp)"
      by blast
    from m fresh have ne: "d1 \<noteq> d2" by force
    from c show ?thesis
    proof
      assume "createOpportunityIfProfitable now tokenA tokenB d1 d2 p1 p2 = Inr (Some opp)"
      with ne m e show ?thesis
        by (intro exI [of _ d1] exI [of _ p1] exI [of _ d2] exI [of _ p2]) auto
    next
      assume "createOpportunityIfProfitable now tokenA tokenB d2 d1 p2 p1 = Inr (Some opp)"
      with ne m e show ?thesis
        by (intro exI [of _ d2] exI [of _ p2] exI [of _ d1] exI [of _ p1]) auto
    qed
  next
    case 2
    from Cons.IH [OF later 2 dist] show ?thesis by auto
  qed
qed

lemma detectOpportunitiesForPair_mem:
  assumes "detectOpportunitiesForPair agg now tokenA tokenB = Inr opps" and "opp \<in> set opps"
  shows "\<exists>d1 p1 d2 p2. d1 \<noteq> d2 \<and>
           createOpportunityIfProfitable now tokenA tokenB d1 d2 p1 p2 = Inr (Some opp)"
proof -
  let ?ps = "fetchPrices (scanners agg) tokenA tokenB"
  from assms have "comparePrices now tokenA tokenB ?ps = Inr opps"
    by (auto simp: detectOpportunitiesForPair_def Let_def split: if_splits)
  from comparePrices_mem [OF this assms(2) fetchPrices_distinct] show ?thesis by blast
qed

lemma create_example:
  "createOpportunityIfProfitable 1000
     ''0xaaaaaaaaaaaaaaaaaaaaaaaaaaaaaaaaaaaaaaaa'' ''0xbbbbbbbbbbbbbbbbbbbbbbbbbbbbbbbbbbbbbbbb''
     ''Uniswap V2'' ''SushiSwap''
     (uniswapQuote ''0xaaaaaaaaaaaaaaaaaaaaaaaaaaaaaaaaaaaaaaaa''
                   ''0xbbbbbbbbbbbbbbbbbbbbbbbbbbbbbbbbbbbbbbbb'')
     (sushiQuote ''0xaaaaaaaaaaaaaaaaaaaaaaaaaaaaaaaaaaaaaaaa''
                 ''0xbbbbbbbbbbbbbbbbbbbbbbbbbbbbbbbbbbbbbbbb'')
   = Inr (Some exampleOpportunity)"
  by (simp add: aggregator_defs exampleOpportunity_def uniswapQuote_def sushiQuote_def Let_def)

lemma detect_example:
  "detectOpportunitiesForPair exampleAggregator 1000
     ''0xaaaaaaaaaaaaaaaaaaaaaaaaaaaaaaaaaaaaaaaa'' ''0xbbbbbbbbbbbbbbbbbbbbbbbbbbbbbbbbbbbbbbbb''
   = Inr [exampleOpportunity]"
  by (simp add: aggregator_defs exampleAggregator_def exampleOpportunity_def uniswapQuote_def
      sushiQuote_def Let_def)

lemma detect_sameToken:
  "detectOpportunitiesForPair exampleAggregator 1000
     ''0xaaaaaaaaaaaaaaaaaaaaaaaaaaaaaaaaaaaaaaaa'' ''0xaaaaaaaaaaaaaaaaaaaaaaaaaaaaaaaaaaaaaaaa''
   = Inr [sameTokenOpportunity]"
  by (simp add: aggregator_defs exampleAggregator_def exampleOpportunity_def
      sameTokenOpportunity_def uniswapQuote_def sushiQuote_def Let_def)

lemma monitored_sameToken:
  "detectOpportunities
     (addPair exampleAggregator ''0xAAAAaaaaaaaaaaaaaaaaaaaaaaaaaaaaaaaaaaaa''
                                ''0xaaaaaaaaaaAAaaaaaaaaaaaaaaaaaaaaaaaaaaaa'') 1000
   = [sameTokenOpportunity]"
proof -
  let ?agg = "addPair exampleAggregator ''0xAAAAaaaaaaaaaaaaaaaaaaaaaaaaaaaaaaaaaaaa''
                                        ''0xaaaaaaaaaaAAaaaaaaaaaaaaaaaaaaaaaaaaaaaa''"
  have m: "monitoredPairs ?agg =
     [''0xaaaaaaaaaaaaaaaaaaaaaaaaaaaaaaaaaaaaaaaa-0xaaaaaaaaaaaaaaaaaaaaaaaaaaaaaaaaaaaaaaaa'']"
    unfolding addPair_def getPairKey_example
    by (simp add: Set_add_def exampleAggregator_def PriceAggregator_new_def)
  have d: "detectOpportunitiesForPair ?agg 1000
     ''0xaaaaaaaaaaaaaaaaaaaaaaaaaaaaaaaaaaaaaaaa'' ''0xaaaaaaaaaaaaaaaaaaaaaaaaaaaaaaaaaaaaaaaa''
     = Inr [sameTokenOpportunity]"
    using detect_sameToken by (simp add: detectOpportunitiesForPair_def addPair_def Let_def)
  show ?thesis
    unfolding detectOpportunities_def m by (simp add: parsePairKey_example d)
qed

lemma monitored_example:
  "detectOpportunities
     (addPair exampleAggregator ''0xaaaaaaaaaaaaaaaaaaaaaaaaaaaaaaaaaaaaaaaa''
                                ''0xbbbbbbbbbbbbbbbbbbbbbbbbbbbbbbbbbbbbbbbb'') 1000
   = [exampleOpportunity]"
proof -
  let ?agg = "addPair exampleAggregator ''0xaaaaaaaaaaaaaaaaaaaaaaaaaaaaaaaaaaaaaaaa''
                                        ''0xbbbbbbbbbbbbbbbbbbbbbbbbbbbbbbbbbbbbbbbb''"
  have m: "monitoredPairs ?agg =
     [''0xaaaaaaaaaaaaaaaaaaaaaaaaaaaaaaaaaaaaaaaa-0xbbbbbbbbbbbbbbbbbbbbbbbbbbbbbbbbbbbbbbbb'']"
    unfolding addPair_def getPairKey_tokens
    by (simp add: Set_add_def exampleAggregator_def PriceAggregator_new_def)
  have d: "detectOpportunitiesForPair ?agg 1000
     ''0xaaaaaaaaaaaaaaaaaaaaaaaaaaaaaaaaaaaaaaaa'' ''0xbbbbbbbbbbbbbbbbbbbbbbbbbbbbbbbbbbbbbbbb''
     = Inr [exampleOpportunity]"
    using detect_example by (simp add: detectOpportunitiesForPair_def addPair_def Let_def)
  show ?thesis
    unfolding detectOpportunities_def m by (simp add: parsePairKey_tokens d)
qed

text \<open>Whatever the scan of all monitored pairs returns was found by the scan of one pair.\<close>

lemma detectOpportunities_mem:
  assumes "opp \<in> set (detectOpportunities agg now)"
  shows "\<exists>pairKey tokenA tokenB opps. pairKey \<in> set (monitoredPairs agg) \<and>
           parsePairKey pairKey = (tokenA, Some tokenB) \<and>
           detectOpportunitiesForPair agg now tokenA tokenB = Inr opps \<and> opp \<in> set opps"
proof -
  from assms obtain pairKey where k: "pairKey \<in> set (monitoredPairs agg)" and
    m: "opp \<in> set (case parsePairKey pairKey of
                      (tokenA, Some tokenB) \<Rightarrow>
                        (case detectOpportunitiesForPair agg now tokenA tokenB of
                           Inl e \<Rightarrow> []
                         | Inr pairOpportunities \<Rightarrow> pairOpportunities)
                    | (tokenA, None) \<Rightarrow> [])"
    by (auto simp: detectOpportunities_def)
  obtain tokenA t where p: "parsePairKey pairKey = (tokenA, t)"
    by (cases "parsePairKey pairKey")
  from m p obtain tokenB where t: "t = Some tokenB" by (cases t) auto
  from m p t obtain opps where "detectOpportunitiesForPair agg now tokenA tokenB = Inr opps"
    and "opp \<in> set opps"
    by (cases "detectOpportunitiesForPair agg now tokenA tokenB") auto
  with k p t show ?thesis by blast
qed

text \<open>
  Claim C5. For every pair of venue quotes, a direction yields a candidate opportunity only
  if the sell price is above the buy price and the percentage difference
  (sellPrice - buyPrice) / buyPrice \<open>\<times>\<close> 100 is at least 0.5; a direction whose sell
  price is not above its buy price yields nothing, so two quotes with the sell price not
  above the buy price in both orderings give no opportunity for the pair.
\<close>

theorem synthesis_threshold:
  "(createOpportunityIfProfitable now tokenA tokenB bd sd bp sp = Inr (Some opp) \<longrightarrow>
      price bp < price sp \<and> 0 < price bp \<and>
      (1 / 2 :: rat) \<le> of_int (price sp - price bp) / of_int (price bp) * 100) \<and>
   (price sp \<le> price bp \<longrightarrow>
      createOpportunityIfProfitable now tokenA tokenB bd sd bp sp = Inr None) \<and>
   (price p2 \<le> price p1 \<and> price p1 \<le> price p2 \<longrightarrow>
      comparePrices now tokenA tokenB [(d1, p1), (d2, p2)] = Inr [])"
proof (intro conjI impI)
  assume c: "createOpportunityIfProfitable now tokenA tokenB bd sd bp sp = Inr (Some opp)"
  show "price bp < price sp" by (rule create_Some(1) [OF c])
  show "0 < price bp" by (rule create_Some(2) [OF c])
  show "(1 / 2 :: rat) \<le> of_int (price sp - price bp) / of_int (price bp) * 100"
    by (rule percent_of_quotient [OF create_Some(2) [OF c] create_Some(3) [OF c]])
next
  assume "price sp \<le> price bp"
  then show "createOpportunityIfProfitable now tokenA tokenB bd sd bp sp = Inr None"
    by (rule create_not_higher)
next
  assume "price p2 \<le> price p1 \<and> price p1 \<le> price p2"
  then show "comparePrices now tokenA tokenB [(d1, p1), (d2, p2)] = Inr []"
    by (simp add: create_not_higher bindE_def pushIf_def)
qed

theorem synthesis_threshold_witness:
  "createOpportunityIfProfitable 1000
     ''0xaaaaaaaaaaaaaaaaaaaaaaaaaaaaaaaaaaaaaaaa'' ''0xbbbbbbbbbbbbbbbbbbbbbbbbbbbbbbbbbbbbbbbb''
     ''Uniswap V2'' ''SushiSwap''
     (uniswapQuote ''0xaaaaaaaaaaaaaaaaaaaaaaaaaaaaaaaaaaaaaaaa''
                   ''0xbbbbbbbbbbbbbbbbbbbbbbbbbbbbbbbbbbbbbbbb'')
     (sushiQuote ''0xaaaaaaaaaaaaaaaaaaaaaaaaaaaaaaaaaaaaaaaa''
                 ''0xbbbbbbbbbbbbbbbbbbbbbbbbbbbbbbbbbbbbbbbb'')
   = Inr (Some exampleOpportunity) \<and>
   (1 / 2 :: rat) \<le> of_int (105 * 10 ^ 18 - 100 * 10 ^ 18) / of_int (100 * 10 ^ 18) * 100 \<and>
   price (uniswapQuote [] []) \<le> price (sushiQuote [] []) \<and>
   createOpportunityIfProfitable 1000 [] [] ''SushiSwap'' ''Uniswap V2''
     (sushiQuote [] []) (uniswapQuote [] []) = Inr None \<and>
   comparePrices 1000 [] []
     [(''Uniswap V2'', uniswapQuote [] []), (''SushiSwap'', uniswapQuote [] [])] = Inr []"
proof -
  note t = synthesis_threshold [of 1000 "''0xaaaaaaaaaaaaaaaaaaaaaaaaaaaaaaaaaaaaaaaa''"
     "''0xbbbbbbbbbbbbbbbbbbbbbbbbbbbbbbbbbbbbbbbb''" "''Uniswap V2''" "''SushiSwap''"
     "uniswapQuote ''0xaaaaaaaaaaaaaaaaaaaaaaaaaaaaaaaaaaaaaaaa''
                   ''0xbbbbbbbbbbbbbbbbbbbbbbbbbbbbbbbbbbbbbbbb''"
     "sushiQuote ''0xaaaaaaaaaaaaaaaaaaaaaaaaaaaaaaaaaaaaaaaa''
                 ''0xbbbbbbbbbbbbbbbbbbbbbbbbbbbbbbbbbbbbbbbb''"
     exampleOpportunity]
  note u = synthesis_threshold [of 1000 "[]" "[]" "''SushiSwap''" "''Uniswap V2''"
      "sushiQuote [] []" "uniswapQuote [] []" exampleOpportunity
      "uniswapQuote [] []" "uniswapQuote [] []" "''Uniswap V2''" "''SushiSwap''"]
  have le: "price (uniswapQuote [] []) \<le> price (sushiQuote [] [])"
    by (simp add: uniswapQuote_def sushiQuote_def)
  from t create_example u le show ?thesis
    by (simp add: uniswapQuote_def sushiQuote_def)
qed

text \<open>
  Claim C4, as the aggregator guarantees it. Every opportunity synthesized by the scan of
  a pair (tokenA, tokenB), for any registered scanners and any quotes they return, has
  sellPrice > buyPrice and buyDex \<open>\<noteq>\<close> sellDex, and carries tokenIn = tokenA and
  tokenOut = tokenB; so tokenIn \<open>\<noteq>\<close> tokenOut holds exactly when the two tokens of the
  scanned pair differ. The first two invariants hold as well for every opportunity that
  the scan of all monitored pairs returns. The aggregator does not compare the tokens; the
  validator's token stage rejects identical ones.
\<close>

theorem synthesized_opportunity_invariants:
  "(detectOpportunitiesForPair agg now tokenA tokenB = Inr opps \<and> opp \<in> set opps \<longrightarrow>
      buyPrice opp < sellPrice opp \<and> buyDex opp \<noteq> sellDex opp \<and>
      tokenIn opp = tokenA \<and> tokenOut opp = tokenB \<and>
      (tokenIn opp \<noteq> tokenOut opp \<longleftrightarrow> tokenA \<noteq> tokenB)) \<and>
   (opp' \<in> set (detectOpportunities agg now) \<longrightarrow>
      buyPrice opp' < sellPrice opp' \<and> buyDex opp' \<noteq> sellDex opp')"
proof (intro conjI impI)
  assume "detectOpportunitiesForPair agg now tokenA tokenB = Inr opps \<and> opp \<in> set opps"
  then have d: "detectOpportunitiesForPair agg now tokenA tokenB = Inr opps"
    and x: "opp \<in> set opps" by simp_all
  from detectOpportunitiesForPair_mem [OF d x] obtain d1 p1 d2 p2 where
    ne: "d1 \<noteq> d2" and
    c: "createOpportunityIfProfitable now tokenA tokenB d1 d2 p1 p2 = Inr (Some opp)"
    by blast
  from create_Some(1) [OF c] create_Some(4) [OF c] ne
  show "buyPrice opp < sellPrice opp" and "buyDex opp \<noteq> sellDex opp"
    and "tokenIn opp = tokenA" and "tokenOut opp = tokenB"
    and "(tokenIn opp \<noteq> tokenOut opp) = (tokenA \<noteq> tokenB)"
    by simp_all
next
  assume m: "opp' \<in> set (detectOpportunities agg now)"
  from detectOpportunities_mem [OF m] obtain tA tB opps' where
    d: "detectOpportunitiesForPair agg now tA tB = Inr opps'" and x: "opp' \<in> set opps'"
    by blast
  from detectOpportunitiesForPair_mem [OF d x] obtain d1 p1 d2 p2 where
    ne: "d1 \<noteq> d2" and
    c: "createOpportunityIfProfitable now tA tB d1 d2 p1 p2 = Inr (Some opp')"
    by blast
  from create_Some(1) [OF c] create_Some(4) [OF c] ne
  show "buyPrice opp' < sellPrice opp'" and "buyDex opp' \<noteq> sellDex opp'" by simp_all
qed

theorem synthesized_opportunity_invariants_witness:
  "detectOpportunitiesForPair exampleAggregator 1000
     ''0xaaaaaaaaaaaaaaaaaaaaaaaaaaaaaaaaaaaaaaaa'' ''0xbbbbbbbbbbbbbbbbbbbbbbbbbbbbbbbbbbbbbbbb''
   = Inr [exampleOpportunity] \<and>
   exampleOpportunity \<in> set [exampleOpportunity] \<and>
   detectOpportunities
     (addPair exampleAggregator ''0xaaaaaaaaaaaaaaaaaaaaaaaaaaaaaaaaaaaaaaaa''
                                ''0xbbbbbbbbbbbbbbbbbbbbbbbbbbbbbbbbbbbbbbbb'') 1000
   = [exampleOpportunity] \<and>
   buyPrice exampleOpportunity < sellPrice exampleOpportunity \<and>
   buyDex exampleOpportunity \<noteq> sellDex exampleOpportunity \<and>
   tokenIn exampleOpportunity = ''0xaaaaaaaaaaaaaaaaaaaaaaaaaaaaaaaaaaaaaaaa'' \<and>
   tokenOut exampleOpportunity = ''0xbbbbbbbbbbbbbbbbbbbbbbbbbbbbbbbbbbbbbbbb'' \<and>
   tokenIn exampleOpportunity \<noteq> tokenOut exampleOpportunity"
proof -
  note t = synthesized_opportunity_invariants [of exampleAggregator 1000
      "''0xaaaaaaaaaaaaaaaaaaaaaaaaaaaaaaaaaaaaaaaa''"
      "''0xbbbbbbbbbbbbbbbbbbbbbbbbbbbbbbbbbbbbbbbb''"
      "[exampleOpportunity]" exampleOpportunity]
  note u = synthesized_opportunity_invariants
      [of "addPair exampleAggregator ''0xaaaaaaaaaaaaaaaaaaaaaaaaaaaaaaaaaaaaaaaa''
                                     ''0xbbbbbbbbbbbbbbbbbbbbbbbbbbbbbbbbbbbbbbbb''" 1000
      "[]" "[]" "[]" exampleOpportunity exampleOpportunity]
  from t u detect_example monitored_example show ?thesis by simp
qed

text \<open>
  The scan of a pair whose two tokens are the same address: \<open>addPair\<close> accepts the pair,
  and when two venues quote it with a sufficient difference an opportunity with
  tokenIn = tokenOut is synthesized, by the scan of the pair and by the scan of all
  monitored pairs.
\<close>

theorem synthesized_opportunity_same_token:
  "detectOpportunitiesForPair exampleAggregator 1000
     ''0xaaaaaaaaaaaaaaaaaaaaaaaaaaaaaaaaaaaaaaaa'' ''0xaaaaaaaaaaaaaaaaaaaaaaaaaaaaaaaaaaaaaaaa''
   = Inr [sameTokenOpportunity] \<and>
   detectOpportunities
     (addPair exampleAggregator ''0xAAAAaaaaaaaaaaaaaaaaaaaaaaaaaaaaaaaaaaaa''
                                ''0xaaaaaaaaaaAAaaaaaaaaaaaaaaaaaaaaaaaaaaaa'') 1000
   = [sameTokenOpportunity] \<and>
   tokenIn sameTokenOpportunity = tokenOut sameTokenOpportunity \<and>
   sellPrice sameTokenOpportunity > buyPrice sameTokenOpportunity \<and>
   buyDex sameTokenOpportunity \<noteq> sellDex sameTokenOpportunity"
  by (simp add: detect_sameToken monitored_sameToken)
    (simp add: sameTokenOpportunity_def exampleOpportunity_def)

text \<open>
  Claim C10. Every opportunity synthesized by the aggregator carries an available
  liquidity of \<open>10 \<times> 10^18\<close> (10 ether), whatever the pools hold, and an estimated profit
  equal to the raw price difference sellPrice - buyPrice.
\<close>

theorem synthesized_liquidity_and_profit_fields:
  "(createOpportunityIfProfitable now tokenA tokenB bd sd bp sp = Inr (Some opp) \<longrightarrow>
      availableLiquidity opp = 10 * 10 ^ 18 \<and>
      estimatedProfit opp = Some (price sp - price bp) \<and>
      estimatedProfit opp = Some (sellPrice opp - buyPrice opp)) \<and>
   (detectOpportunitiesForPair agg now tokenA tokenB = Inr opps \<longrightarrow>
      (\<forall>x \<in> set opps. availableLiquidity x = 10 * 10 ^ 18 \<and>
                        estimatedProfit x = Some (sellPrice x - buyPrice x))) \<and>
   (\<forall>x \<in> set (detectOpportunities agg now).
       availableLiquidity x = 10 * 10 ^ 18 \<and>
       estimatedProfit x = Some (sellPrice x - buyPrice x))"
proof (intro conjI impI ballI)
  assume c: "createOpportunityIfProfitable now tokenA tokenB bd sd bp sp = Inr (Some opp)"
  from create_Some(4) [OF c] show "availableLiquidity opp = 10 * 10 ^ 18"
    and "estimatedProfit opp = Some (price sp - price bp)"
    and "estimatedProfit opp = Some (sellPrice opp - buyPrice opp)" by simp_all
next
  fix x
  assume d: "detectOpportunitiesForPair agg now tokenA tokenB = Inr opps" and x: "x \<in> set opps"
  from detectOpportunitiesForPair_mem [OF d x] obtain d1 p1 d2 p2 where
    c: "createOpportunityIfProfitable now tokenA tokenB d1 d2 p1 p2 = Inr (Some x)" by blast
  from create_Some(4) [OF c] show "availableLiquidity x = 10 * 10 ^ 18"
    and "estimatedProfit x = Some (sellPrice x - buyPrice x)" by simp_all
next
  fix x
  assume m: "x \<in> set (detectOpportunities agg now)"
  from detectOpportunities_mem [OF m] obtain tA tB opps' where
    d: "detectOpportunitiesForPair agg now tA tB = Inr opps'" and x: "x \<in> set opps'"
    by blast
  from detectOpportunitiesForPair_mem [OF d x] obtain d1 p1 d2 p2 where
    c: "createOpportunityIfProfitable now tA tB d1 d2 p1 p2 = Inr (Some x)" by blast
  from create_Some(4) [OF c] show "availableLiquidity x = 10 * 10 ^ 18"
    and "estimatedProfit x = Some (sellPrice x - buyPrice x)" by simp_all
qed

theorem synthesized_liquidity_and_profit_fields_witness:
  "createOpportunityIfProfitable 1000
     ''0xaaaaaaaaaaaaaaaaaaaaaaaaaaaaaaaaaaaaaaaa'' ''0xbbbbbbbbbbbbbbbbbbbbbbbbbbbbbbbbbbbbbbbb''
     ''Uniswap V2'' ''SushiSwap''
     (uniswapQuote ''0xaaaaaaaaaaaaaaaaaaaaaaaaaaaaaaaaaaaaaaaa''
                   ''0xbbbbbbbbbbbbbbbbbbbbbbbbbbbbbbbbbbbbbbbb'')
     (sushiQuote ''0xaaaaaaaaaaaaaaaaaaaaaaaaaaaaaaaaaaaaaaaa''
                 ''0xbbbbbbbbbbbbbbbbbbbbbbbbbbbbbbbbbbbbbbbb'')
   = Inr (Some exampleOpportunity) \<and>
   detectOpportunitiesForPair exampleAggregator 1000
     ''0xaaaaaaaaaaaaaaaaaaaaaaaaaaaaaaaaaaaaaaaa'' ''0xbbbbbbbbbbbbbbbbbbbbbbbbbbbbbbbbbbbbbbbb''
   = Inr [exampleOpportunity] \<and>
   detectOpportunities
     (addPair exampleAggregator ''0xaaaaaaaaaaaaaaaaaaaaaaaaaaaaaaaaaaaaaaaa''
                                ''0xbbbbbbbbbbbbbbbbbbbbbbbbbbbbbbbbbbbbbbbb'') 1000
   = [exampleOpportunity] \<and>
   availableLiquidity exampleOpportunity = 10 * 10 ^ 18 \<and>
   estimatedProfit exampleOpportunity
     = Some (sellPrice exampleOpportunity - buyPrice exampleOpportunity)"
proof -
  note t = synthesized_liquidity_and_profit_fields
     [of 1000 "''0xaaaaaaaaaaaaaaaaaaaaaaaaaaaaaaaaaaaaaaaa''"
     "''0xbbbbbbbbbbbbbbbbbbbbbbbbbbbbbbbbbbbbbbbb''" "''Uniswap V2''" "''SushiSwap''"
     "uniswapQuote ''0xaaaaaaaaaaaaaaaaaaaaaaaaaaaaaaaaaaaaaaaa''
                   ''0xbbbbbbbbbbbbbbbbbbbbbbbbbbbbbbbbbbbbbbbb''"
     "sushiQuote ''0xaaaaaaaaaaaaaaaaaaaaaaaaaaaaaaaaaaaaaaaa''
                 ''0xbbbbbbbbbbbbbbbbbbbbbbbbbbbbbbbbbbbbbbbb''"
     exampleOpportunity exampleAggregator "[exampleOpportunity]"]
  note u = synthesized_liquidity_and_profit_fields
     [of 1000 "[]" "[]" "[]" "[]" "uniswapQuote [] []" "uniswapQuote [] []" exampleOpportunity
         "addPair exampleAggregator ''0xaaaaaaaaaaaaaaaaaaaaaaaaaaaaaaaaaaaaaaaa''
                                    ''0xbbbbbbbbbbbbbbbbbbbbbbbbbbbbbbbbbbbbbbbb''" "[]"]
  from t u create_example detect_example monitored_example show ?thesis
    by (simp add: exampleOpportunity_def)
qed

section \<open>OpportunityValidator: freshness and the clock\<close>

lemma validateFreshness_stale:
  "60000 < now - timestamp opp \<Longrightarrow>
   validateFreshness now opp = invalid (Stale (of_int (now - timestamp opp) / 1000) 60)"
  by (simp add: validateFreshness_def Let_def)

lemma validateFreshness_fresh:
  "now - timestamp opp \<le> 60000 \<Longrightarrow>
   validateFreshness now opp =
     validWith (if 30000 < now - timestamp opp
                then [Aging (of_int (now - timestamp opp) / 1000)] else [])"
  by (simp add: validateFreshness_def Let_def)

text \<open>A verdict of acceptance has passed the freshness stage.\<close>

lemma validate_valid_fresh:
  assumes "validate isAddress v now opp = Inr r" and "isValid r"
  shows "isValid (validateFreshness now opp)"
  using assms unfolding validate_def bindE_def Let_def
  by (auto split: sum.splits if_splits simp: validWith_def)

lemma validate_aging:
  "validate isLowerCaseAddress defaultValidator 60000 exampleOpportunity
     = Inr (validWith [Aging 59])"
  by (simp add: validator_defs defaultValidator_def defaultConfig_def exampleOpportunity_def
      Let_def)

lemma validate_stale:
  "validate isLowerCaseAddress defaultValidator 62000 exampleOpportunity
     = Inr (invalid (Stale 61 60))"
  by (simp add: validator_defs defaultValidator_def defaultConfig_def exampleOpportunity_def
      Let_def)

lemma validate_young:
  "validate isLowerCaseAddress defaultValidator 2000 exampleOpportunity = Inr (validWith [])"
  by (simp add: validator_defs defaultValidator_def defaultConfig_def exampleOpportunity_def
      Let_def)

text \<open>
  Claim C6. For every opportunity, the freshness stage rejects it with a staleness reason
  when its age (evaluation time minus detection timestamp) exceeds 60 seconds, and accepts
  it when the age is within the window, with a warning whenever the age lies in the second
  half of the window (above 30 seconds); so no opportunity older than 60 seconds is
  accepted by the validator.
\<close>

theorem freshness_window:
  "(60000 < now - timestamp opp \<longrightarrow>
      validateFreshness now opp = invalid (Stale (of_int (now - timestamp opp) / 1000) 60) \<and>
      \<not> isValid (validateFreshness now opp)) \<and>
   (now - timestamp opp \<le> 60000 \<longrightarrow>
      isValid (validateFreshness now opp) \<and>
      reason (validateFreshness now opp) = None \<and>
      warnings (validateFreshness now opp) =
        (if 30000 < now - timestamp opp then Some [Aging (of_int (now - timestamp opp) / 1000)]
         else None)) \<and>
   (validate isAddress v now opp = Inr r \<and> isValid r \<longrightarrow> now - timestamp opp \<le> 60000)"
proof (intro conjI impI)
  assume "60000 < now - timestamp opp"
  then show "validateFreshness now opp = invalid (Stale (of_int (now - timestamp opp) / 1000) 60)"
    and "\<not> isValid (validateFreshness now opp)"
    by (simp_all add: validateFreshness_stale invalid_def)
next
  assume "now - timestamp opp \<le> 60000"
  then show "isValid (validateFreshness now opp)"
    and "reason (validateFreshness now opp) = None"
    and "warnings (validateFreshness now opp) =
        (if 30000 < now - timestamp opp then Some [Aging (of_int (now - timestamp opp) / 1000)]
         else None)"
    by (simp_all add: validateFreshness_fresh validWith_def)
next
  assume "validate isAddress v now opp = Inr r \<and> isValid r"
  then have "isValid (validateFreshness now opp)" by (blast intro: validate_valid_fresh)
  then show "now - timestamp opp \<le> 60000"
    by (rule contrapos_pp) (simp add: validateFreshness_stale invalid_def)
qed

theorem freshness_window_witness:
  "60000 < 62000 - timestamp exampleOpportunity \<and>
   validateFreshness 62000 exampleOpportunity = invalid (Stale 61 60) \<and>
   \<not> isValid (validateFreshness 62000 exampleOpportunity) \<and>
   60000 - timestamp exampleOpportunity \<le> 60000 \<and>
   isValid (validateFreshness 60000 exampleOpportunity) \<and>
   warnings (validateFreshness 60000 exampleOpportunity) = Some [Aging 59] \<and>
   validate isLowerCaseAddress defaultValidator 60000 exampleOpportunity
     = Inr (validWith [Aging 59]) \<and>
   isValid (validWith [Aging 59])"
proof -
  have t: "timestamp exampleOpportunity = 1000" by (simp add: exampleOpportunity_def)
  from freshness_window [of 62000 exampleOpportunity isLowerCaseAddress defaultValidator
      "validWith [Aging 59]"]
    freshness_window [of 60000 exampleOpportunity isLowerCaseAddress defaultValidator
      "validWith [Aging 59]"]
    validate_aging t
  show ?thesis by (simp add: validWith_def invalid_def)
qed

text \<open>
  Claim C2, as the validator behaves. The verdict of \<open>validate\<close> is determined by the
  validator's configuration, the opportunity's fields and the reading of the clock that the
  freshness stage takes: any two calls on the same opportunity, by the same validator,
  whose clock readings both put the age of the opportunity at 30 seconds or less return
  the identical verdict.
\<close>

theorem validate_same_verdict_while_young:
  assumes "now1 - timestamp opp \<le> 30000" and "now2 - timestamp opp \<le> 30000"
  shows "validate isAddress v now1 opp = validate isAddress v now2 opp"
proof -
  have f1: "validateFreshness now1 opp = validWith []"
    using assms(1) by (simp add: validateFreshness_fresh)
  have f2: "validateFreshness now2 opp = validWith []"
    using assms(2) by (simp add: validateFreshness_fresh)
  show ?thesis by (simp only: validate_def Let_def f1 f2)
qed

theorem validate_same_verdict_while_young_witness:
  "2000 - timestamp exampleOpportunity \<le> 30000 \<and>
   3000 - timestamp exampleOpportunity \<le> 30000 \<and>
   validate isLowerCaseAddress defaultValidator 2000 exampleOpportunity =
   validate isLowerCaseAddress defaultValidator 3000 exampleOpportunity \<and>
   validate isLowerCaseAddress defaultValidator 3000 exampleOpportunity = Inr (validWith [])"
proof -
  have h1: "2000 - timestamp exampleOpportunity \<le> 30000"
    and h2: "3000 - timestamp exampleOpportunity \<le> 30000"
    by (simp_all add: exampleOpportunity_def)
  from validate_same_verdict_while_young [OF h1 h2, of isLowerCaseAddress defaultValidator]
    validate_young h1 h2
  show ?thesis by simp
qed

text \<open>
  The same opportunity, validated by the same validator 59 seconds and 61 seconds after
  its detection: the first verdict accepts it with a warning, the second rejects it as
  stale. The verdict depends on the clock.
\<close>

theorem validate_depends_on_clock:
  "validate isLowerCaseAddress defaultValidator 60000 exampleOpportunity
     = Inr (validWith [Aging 59]) \<and>
   validate isLowerCaseAddress defaultValidator 62000 exampleOpportunity
     = Inr (invalid (Stale 61 60)) \<and>
   validate isLowerCaseAddress defaultValidator 60000 exampleOpportunity \<noteq>
   validate isLowerCaseAddress defaultValidator 62000 exampleOpportunity"
  by (simp add: validate_aging validate_stale validWith_def invalid_def)

end
